theory Spec2Isabelle
  imports Complex_Main "HOL-Library.Word" "HOL-Library.Sublist"
begin

section \<open>Python values and exceptions\<close>

text \<open>
  The client is dynamically typed Python. Arguments, attributes and decoded JSON payloads
  are values of one type. A float is kept as the rational it denotes (NaN and the
  infinities are left out); a \<open>dict\<close> is its list of items in insertion order, which is
  the order \<open>.items()\<close> iterates in.
\<close>

datatype pyval =
    PNone
  | PBool bool
  | PInt int
  | PFloat rat
  | PStr string
  | PList "pyval list"
  | PTuple "pyval list"
  | PDict "(pyval \<times> pyval) list"

type_synonym bytes = "8 word list"

text \<open>
  Exception classes: the builtins the code raises or provokes, the classes of
  \<open>mpxpy.errors\<close>, and three families raised by code outside the repository: any class
  of \<open>requests.exceptions\<close> (all derive from \<open>RequestException\<close>), any other
  \<open>OSError\<close>, and any other \<open>Exception\<close>, each by its class name.
  \<open>FilesystemError\<close>, \<open>ValidationError\<close> and \<open>AuthenticationError\<close> are imported from
  \<open>mpxpy.errors\<close> by the modules that raise them; each is taken as an exception class
  constructed from a message.
\<close>

datatype exn_class =
    ValueError
  | TypeError
  | KeyError
  | IndexError
  | AttributeError
  | FileNotFoundError
  | ValidationError
  | AuthenticationError
  | MathpixClientError
  | ConversionIncompleteError
  | FilesystemError
  | RequestException string
  | OSError string
  | OtherException string

text \<open>
  An exception instance: its class, its message, the attributes its constructor sets, and
  \<open>__context__\<close>, which Python sets to the exception being handled when a \<open>raise\<close>
  executes inside an \<open>except\<close> block.
\<close>

datatype exn =
  Exn (exn_cls: exn_class) (exn_msg: string) (exn_attrs: "(string \<times> pyval) list")
      (exn_context: "exn option")

definition new_exn :: "exn_class \<Rightarrow> string \<Rightarrow> exn" where
  "new_exn cls m = Exn cls m [] None"

text \<open>The truth value of an object, and \<open>a or b\<close>.\<close>

fun py_truthy :: "pyval \<Rightarrow> bool" where
  "py_truthy PNone = False"
| "py_truthy (PBool b) = b"
| "py_truthy (PInt i) = (i \<noteq> 0)"
| "py_truthy (PFloat r) = (r \<noteq> 0)"
| "py_truthy (PStr s) = (s \<noteq> [])"
| "py_truthy (PList xs) = (xs \<noteq> [])"
| "py_truthy (PTuple xs) = (xs \<noteq> [])"
| "py_truthy (PDict d) = (d \<noteq> [])"

definition py_or :: "pyval \<Rightarrow> pyval \<Rightarrow> pyval" where
  "py_or a b = (if py_truthy a then a else b)"

text \<open>
  \<open>errors.py\<close>: \<open>ConversionIncompleteError.__init__(message, status_info=None)\<close> stores
  \<open>status_info or {}\<close>.
\<close>

definition ConversionIncompleteError_init :: "string \<Rightarrow> pyval \<Rightarrow> exn" where
  "ConversionIncompleteError_init message status_info =
     Exn ConversionIncompleteError message
       [(''status_info'', py_or status_info (PDict []))] None"

fun py_type_name :: "pyval \<Rightarrow> string" where
  "py_type_name PNone = ''NoneType''"
| "py_type_name (PBool _) = ''bool''"
| "py_type_name (PInt _) = ''int''"
| "py_type_name (PFloat _) = ''float''"
| "py_type_name (PStr _) = ''str''"
| "py_type_name (PList _) = ''list''"
| "py_type_name (PTuple _) = ''tuple''"
| "py_type_name (PDict _) = ''dict''"

text \<open>Numbers: \<open>bool\<close> is a subclass of \<open>int\<close>, so \<open>True\<close> is the integer 1.\<close>

fun py_num :: "pyval \<Rightarrow> rat option" where
  "py_num (PBool b) = Some (if b then 1 else 0)"
| "py_num (PInt i) = Some (of_int i)"
| "py_num (PFloat r) = Some r"
| "py_num _ = None"

fun py_isinstance_int :: "pyval \<Rightarrow> bool" where
  "py_isinstance_int (PInt _) = True"
| "py_isinstance_int (PBool _) = True"
| "py_isinstance_int _ = False"

fun py_int_value :: "pyval \<Rightarrow> int" where
  "py_int_value (PInt i) = i"
| "py_int_value (PBool b) = (if b then 1 else 0)"
| "py_int_value _ = 0"

text \<open>
  Equality of dictionary keys (hashable values): numbers by value, strings and \<open>None\<close> by
  content, tuples element by element. Lists and dicts are unhashable and never keys.
\<close>

fun key_eq :: "pyval \<Rightarrow> pyval \<Rightarrow> bool"
  and key_eq_list :: "pyval list \<Rightarrow> pyval list \<Rightarrow> bool" where
  "key_eq PNone b = (b = PNone)"
| "key_eq (PStr s) b = (b = PStr s)"
| "key_eq (PBool x) b = (py_num b = Some (if x then 1 else 0))"
| "key_eq (PInt i) b = (py_num b = Some (of_int i))"
| "key_eq (PFloat r) b = (py_num b = Some r)"
| "key_eq (PTuple xs) b = (case b of PTuple ys \<Rightarrow> key_eq_list xs ys | _ \<Rightarrow> False)"
| "key_eq (PList xs) b = False"
| "key_eq (PDict d) b = False"
| "key_eq_list [] ys = (ys = [])"
| "key_eq_list (x # xs) ys = (case ys of [] \<Rightarrow> False | y # ys' \<Rightarrow> key_eq x y \<and> key_eq_list xs ys')"

fun dict_get :: "(pyval \<times> pyval) list \<Rightarrow> pyval \<Rightarrow> pyval option" where
  "dict_get [] k = None"
| "dict_get ((k', v) # d) k = (if key_eq k' k then Some v else dict_get d k)"

text \<open>\<open>obj[key]\<close>. A sequence takes an integer index, negative ones counting from the end.\<close>

definition seq_index :: "'a list \<Rightarrow> int \<Rightarrow> 'a option" where
  "seq_index xs i =
     (let n = int (length xs); j = (if i < 0 then i + n else i)
      in if 0 \<le> j \<and> j < n then Some (xs ! nat j) else None)"

fun py_getitem :: "pyval \<Rightarrow> pyval \<Rightarrow> exn + pyval" where
  "py_getitem (PDict d) k =
     (case dict_get d k of
        Some v \<Rightarrow> Inr v
      | None \<Rightarrow> Inl (Exn KeyError [] [(''args'', PTuple [k])] None))"
| "py_getitem (PList xs) k =
     (if py_isinstance_int k then
        (case seq_index xs (py_int_value k) of
           Some v \<Rightarrow> Inr v
         | None \<Rightarrow> Inl (new_exn IndexError ''list index out of range''))
      else Inl (new_exn TypeError ''list indices must be integers or slices''))"
| "py_getitem (PTuple xs) k =
     (if py_isinstance_int k then
        (case seq_index xs (py_int_value k) of
           Some v \<Rightarrow> Inr v
         | None \<Rightarrow> Inl (new_exn IndexError ''tuple index out of range''))
      else Inl (new_exn TypeError ''tuple indices must be integers or slices''))"
| "py_getitem (PStr s) k =
     (if py_isinstance_int k then
        (case seq_index s (py_int_value k) of
           Some ch \<Rightarrow> Inr (PStr [ch])
         | None \<Rightarrow> Inl (new_exn IndexError ''string index out of range''))
      else Inl (new_exn TypeError ''string indices must be integers''))"
| "py_getitem v k = Inl (new_exn TypeError (py_type_name v @ '' object is not subscriptable''))"

text \<open>\<open>obj.items()\<close>: only a dict has the method.\<close>

fun py_items :: "pyval \<Rightarrow> exn + (pyval \<times> pyval) list" where
  "py_items (PDict d) = Inr d"
| "py_items v = Inl (new_exn AttributeError (py_type_name v @ '' object has no attribute items''))"

text \<open>
  \<open>s in obj\<close> for a string \<open>s\<close>: a key of a dict, an element of a list or tuple, a
  substring of a string; anything else is not iterable.
\<close>

fun py_contains_str :: "pyval \<Rightarrow> string \<Rightarrow> exn + bool" where
  "py_contains_str (PDict d) s = Inr (PStr s \<in> set (map fst d))"
| "py_contains_str (PList xs) s = Inr (PStr s \<in> set xs)"
| "py_contains_str (PTuple xs) s = Inr (PStr s \<in> set xs)"
| "py_contains_str (PStr t) s = Inr (sublist s t)"
| "py_contains_str v s =
     Inl (new_exn TypeError (''argument of type '' @ py_type_name v @ '' is not iterable''))"

section \<open>The world outside the client\<close>

text \<open>
  \<open>mpxpy.auth\<close>, \<open>mpxpy.request_handler\<close> and \<open>mpxpy.logger\<close> are not part of the
  sources at hand, and \<open>requests\<close>, \<open>os\<close> and \<open>time\<close> are libraries. They are the
  environment of the model:
  \<^item> \<open>Auth\<close> is a record of the two attributes the code reads;
  \<open>get\<close> and \<open>post\<close> append the request to a log and produce what the environment's
  script holds for the request of that index, either a response or a raised exception;
  \<^item> a response offers \<open>status_code\<close>, \<open>json()\<close> (which may raise), \<open>content\<close> and the
  stream \<open>iter_content\<close>, whose items are chunks or an exception raised while
  iterating;
  \<^item> \<open>time.sleep\<close> adds to a counter of seconds slept;
  \<^item> logging has no effect on any result and is left out.
\<close>

record auth =
  api_url :: string
  headers :: "(string \<times> string) list"

record response =
  status_code :: int
  json_result :: "exn + pyval"
  content :: bytes
  iter_content :: "(exn + bytes) list"

datatype json_text = JsonText pyval

datatype body =
    NoBody
  | JsonBody pyval
  | MultipartBody "(string \<times> json_text) list" string

datatype request =
    Get string "(string \<times> string) list"
  | Post string "(string \<times> string) list" body

datatype os_call =
    Makedirs string
  | OpenWrite string
  | Write string bytes
  | Close string
  | OpenRead string

record world =
  http_script :: "nat \<Rightarrow> exn + response"
  http_log :: "request list"
  slept :: nat
  os_script :: "nat \<Rightarrow> exn option"
  os_log :: "os_call list"
  dirs :: "string list set"
  files :: "string list \<rightharpoonup> bytes"

definition http_request :: "request \<Rightarrow> world \<Rightarrow> (exn + response) \<times> world" where
  "http_request req w = (http_script w (length (http_log w)), w\<lparr>http_log := http_log w @ [req]\<rparr>)"

definition get :: "string \<Rightarrow> (string \<times> string) list \<Rightarrow> world \<Rightarrow> (exn + response) \<times> world" where
  "get endpoint hdrs w = http_request (Get endpoint hdrs) w"

definition time_sleep :: "nat \<Rightarrow> world \<Rightarrow> world" where
  "time_sleep n w = w\<lparr>slept := slept w + n\<rparr>"

text \<open>\<open>os.path.join\<close> (POSIX): a component starting with \<open>/\<close> discards what came before.\<close>

definition join2 :: "string \<Rightarrow> string \<Rightarrow> string" where
  "join2 path b =
     (if b \<noteq> [] \<and> hd b = CHR ''/'' then b
      else if path = [] \<or> last path = CHR ''/'' then path @ b
      else path @ ''/'' @ b)"

definition os_path_join :: "string \<Rightarrow> string list \<Rightarrow> string" where
  "os_path_join a p = foldl join2 a p"

section \<open>Conversion\<close>

record conversion =
  auth :: auth
  conversion_id :: string
  conversion_formats :: pyval

text \<open>
  \<open>Conversion.__init__\<close>. \<open>auth\<close> is an \<open>Auth\<close> object or \<open>None\<close>; \<open>conversion_id\<close> is
  a string or \<open>None\<close>.
\<close>

definition Conversion_init :: "auth option \<Rightarrow> string option \<Rightarrow> pyval \<Rightarrow> exn + conversion" where
  "Conversion_init a cid formats =
     (case a of
        None \<Rightarrow> Inl (new_exn ValidationError ''Conversion requires an authenticated client'')
      | Some a' \<Rightarrow>
          (let cid' = (case cid of None \<Rightarrow> [] | Some s \<Rightarrow> s) in
           if cid' = [] then Inl (new_exn ValidationError ''Conversion requires a Conversion ID'')
           else Inr \<lparr>auth = a', conversion_id = cid', conversion_formats = formats\<rparr>))"

definition status_endpoint :: "conversion \<Rightarrow> string" where
  "status_endpoint c = os_path_join (api_url (conversion.auth c)) [''v3/converter'', conversion_id c]"

definition conversion_status :: "conversion \<Rightarrow> world \<Rightarrow> (exn + pyval) \<times> world" where
  "conversion_status c w =
     (case get (status_endpoint c) (headers (conversion.auth c)) w of
        (Inl e, w1) \<Rightarrow> (Inl e, w1)
      | (Inr response, w1) \<Rightarrow> (json_result response, w1))"

text \<open>
  The generator inside \<open>all(...)\<close>: \<open>format_data['status'] == 'completed' or
  format_data['status'] == 'error'\<close> for each item in order; \<open>all\<close> stops at the first
  false item, and an exception of the subscript ends the evaluation. Only a string equals
  a string, so \<open>x == 'completed'\<close> is \<open>x = PStr ''completed''\<close>.
\<close>

fun all_formats_done :: "(pyval \<times> pyval) list \<Rightarrow> exn + bool" where
  "all_formats_done [] = Inr True"
| "all_formats_done ((name, format_data) # rest) =
     (case py_getitem format_data (PStr ''status'') of
        Inl e \<Rightarrow> Inl e
      | Inr s \<Rightarrow>
          if s = PStr ''completed'' \<or> s = PStr ''error'' then all_formats_done rest
          else Inr False)"

text \<open>The condition of the \<open>if\<close> in the loop body; \<open>and\<close> evaluates its right side only when the left is true.\<close>

definition success_test :: "pyval \<Rightarrow> exn + bool" where
  "success_test st =
     (case py_getitem st (PStr ''status'') of
        Inl e \<Rightarrow> Inl e
      | Inr s \<Rightarrow>
          if s = PStr ''completed'' then
            (case py_getitem st (PStr ''conversion_status'') of
               Inl e \<Rightarrow> Inl e
             | Inr cs \<Rightarrow>
                 (case py_items cs of
                    Inl e \<Rightarrow> Inl e
                  | Inr items \<Rightarrow> all_formats_done items))
          else Inr False)"

text \<open>
  The \<open>while\<close> loop of \<open>wait_until_complete\<close>, with its variables \<open>attempt\<close> and
  \<open>completed\<close>; the value is what \<open>return completed\<close> gives after the loop, or the
  exception that left it.
\<close>

function wait_loop :: "conversion \<Rightarrow> int \<Rightarrow> int \<Rightarrow> bool \<Rightarrow> world \<Rightarrow> (exn + bool) \<times> world" where
  "wait_loop c timeout attempt completed w =
     (if attempt < timeout \<and> \<not> completed then
        (case conversion_status c w of
           (Inl e, w1) \<Rightarrow> (Inl e, w1)
         | (Inr st, w1) \<Rightarrow>
             (case success_test st of
                Inl e \<Rightarrow> (Inl e, w1)
              | Inr True \<Rightarrow> (Inr True, w1)
              | Inr False \<Rightarrow>
                  (case py_getitem st (PStr ''status'') of
                     Inl e \<Rightarrow> (Inl e, w1)
                   | Inr s \<Rightarrow>
                       if s = PStr ''error'' then (Inr completed, w1)
                       else wait_loop c timeout (attempt + 1) completed (time_sleep 1 w1))))
      else (Inr completed, w))"
  by pat_completeness auto
termination
  by (relation "measure (\<lambda>(c, timeout, attempt, completed, w). nat (timeout - attempt))") auto

declare wait_loop.simps [simp del]

definition wait_until_complete :: "conversion \<Rightarrow> pyval \<Rightarrow> world \<Rightarrow> (exn + bool) \<times> world" where
  "wait_until_complete c timeout w =
     (if \<not> py_isinstance_int timeout \<or> py_int_value timeout \<le> 0 then
        (Inl (new_exn ValueError ''Timeout must be a positive, non-zero integer''), w)
      else wait_loop c (py_int_value timeout) 1 False w)"

subsection \<open>Files\<close>

text \<open>
  \<open>os.makedirs\<close>, \<open>open\<close>, \<open>write\<close> and the closing of the file belong to the
  environment. Each call is logged; whether it succeeds or raises is what the
  environment's script holds for the call of that index; when it succeeds the state
  changes as the call is documented to change it. A path names the list of its segments
  (with a leading \<open>/\<close> for an absolute path); the segments \<open>.\<close> and \<open>..\<close> are not
  interpreted. Directories are a set of such lists, files a map from them to contents.
\<close>

fun split_slash :: "string \<Rightarrow> string list" where
  "split_slash [] = [[]]"
| "split_slash (c # cs) =
     (if c = CHR ''/'' then [] # split_slash cs
      else (case split_slash cs of [] \<Rightarrow> [[c]] | s # ss \<Rightarrow> (c # s) # ss))"

definition path_parts :: "string \<Rightarrow> string list" where
  "path_parts p =
     (if p \<noteq> [] \<and> hd p = CHR ''/'' then [''/''] else []) @ filter (\<lambda>s. s \<noteq> []) (split_slash p)"

text \<open>A directory path with all its parents: the non-empty prefixes of its segments.\<close>

definition ancestors_and_self :: "string list \<Rightarrow> string list set" where
  "ancestors_and_self ps = set (map (\<lambda>k. take k ps) [1..<Suc (length ps)])"

definition os_step :: "os_call \<Rightarrow> world \<Rightarrow> exn option \<times> world" where
  "os_step call w = (os_script w (length (os_log w)), w\<lparr>os_log := os_log w @ [call]\<rparr>)"

text \<open>\<open>os.makedirs(name, exist_ok=True)\<close>; \<open>None\<close> is not a path.\<close>

definition os_makedirs :: "string option \<Rightarrow> world \<Rightarrow> exn option \<times> world" where
  "os_makedirs name w =
     (case name of
        None \<Rightarrow> (Some (new_exn TypeError ''expected str, bytes or os.PathLike object, not NoneType''), w)
      | Some p \<Rightarrow>
          (case os_step (Makedirs p) w of
             (Some e, w1) \<Rightarrow> (Some e, w1)
           | (None, w1) \<Rightarrow> (None, w1\<lparr>dirs := dirs w1 \<union> ancestors_and_self (path_parts p)\<rparr>)))"

text \<open>\<open>open(file_path, 'wb')\<close> creates the file or truncates it.\<close>

definition open_wb :: "string \<Rightarrow> world \<Rightarrow> exn option \<times> world" where
  "open_wb file_path w =
     (case os_step (OpenWrite file_path) w of
        (Some e, w1) \<Rightarrow> (Some e, w1)
      | (None, w1) \<Rightarrow> (None, w1\<lparr>files := (files w1)(path_parts file_path \<mapsto> [])\<rparr>))"

definition file_write :: "string \<Rightarrow> bytes \<Rightarrow> world \<Rightarrow> exn option \<times> world" where
  "file_write file_path chunk w =
     (case os_step (Write file_path chunk) w of
        (Some e, w1) \<Rightarrow> (Some e, w1)
      | (None, w1) \<Rightarrow>
          (None, w1\<lparr>files := (files w1)(path_parts file_path \<mapsto>
                    (case files w1 (path_parts file_path) of None \<Rightarrow> chunk | Some old \<Rightarrow> old @ chunk))\<rparr>))"

definition file_close :: "string \<Rightarrow> world \<Rightarrow> exn option \<times> world" where
  "file_close file_path w = os_step (Close file_path) w"

text \<open>An exception raised while another one is being handled gets that one as \<open>__context__\<close>.\<close>

definition with_context :: "exn \<Rightarrow> exn option \<Rightarrow> exn" where
  "with_context e handled =
     (case handled of None \<Rightarrow> e | Some h \<Rightarrow> Exn (exn_cls e) (exn_msg e) (exn_attrs e) (Some h))"

subsection \<open>Safe download\<close>

text \<open>
  The \<open>for\<close> loop over \<open>response.iter_content(chunk_size=8192)\<close>: an empty chunk is
  skipped, an exception of the iterator or of \<open>f.write\<close> leaves the loop.
\<close>

fun write_chunks :: "string \<Rightarrow> (exn + bytes) list \<Rightarrow> world \<Rightarrow> exn option \<times> world" where
  "write_chunks file_path [] w = (None, w)"
| "write_chunks file_path (Inl e # rest) w = (Some e, w)"
| "write_chunks file_path (Inr chunk # rest) w =
     (if chunk \<noteq> [] then
        (case file_write file_path chunk w of
           (Some e, w1) \<Rightarrow> (Some e, w1)
         | (None, w1) \<Rightarrow> write_chunks file_path rest w1)
      else write_chunks file_path rest w)"

text \<open>
  The \<open>with open(...) as f\<close> statement around the loop: if \<open>open\<close> raises nothing else
  happens; otherwise the file is closed on every exit, and an exception of the closing
  replaces the one that left the body.
\<close>

definition save_stream :: "string \<Rightarrow> (exn + bytes) list \<Rightarrow> world \<Rightarrow> exn option \<times> world" where
  "save_stream file_path stream w =
     (case open_wb file_path w of
        (Some e, w1) \<Rightarrow> (Some e, w1)
      | (None, w1) \<Rightarrow>
          (case write_chunks file_path stream w1 of
             (raised, w2) \<Rightarrow>
               (case file_close file_path w2 of
                  (Some e', w3) \<Rightarrow> (Some (with_context e' raised), w3)
                | (None, w3) \<Rightarrow> (raised, w3))))"

text \<open>
  \<open>conversion_format\<close> is a string or \<open>None\<close>: as a dictionary key and inside the
  f-string.
\<close>

definition format_key :: "string option \<Rightarrow> pyval" where
  "format_key conversion_format = (case conversion_format of None \<Rightarrow> PNone | Some s \<Rightarrow> PStr s)"

definition format_str :: "string option \<Rightarrow> string" where
  "format_str conversion_format = (case conversion_format of None \<Rightarrow> ''None'' | Some s \<Rightarrow> s)"

text \<open>
  The condition \<open>not 'conversion_status' in conversion_status or
  conversion_status['conversion_status'][conversion_format]['status'] != 'completed'\<close>.
\<close>

definition incomplete_test :: "pyval \<Rightarrow> string option \<Rightarrow> exn + bool" where
  "incomplete_test st conversion_format =
     (case py_contains_str st ''conversion_status'' of
        Inl e \<Rightarrow> Inl e
      | Inr False \<Rightarrow> Inr True
      | Inr True \<Rightarrow>
          (case py_getitem st (PStr ''conversion_status'') of
             Inl e \<Rightarrow> Inl e
           | Inr cs \<Rightarrow>
               (case py_getitem cs (format_key conversion_format) of
                  Inl e \<Rightarrow> Inl e
                | Inr fd \<Rightarrow>
                    (case py_getitem fd (PStr ''status'') of
                       Inl e \<Rightarrow> Inl e
                     | Inr s \<Rightarrow> Inr (s \<noteq> PStr ''completed'')))))"

definition output_name :: "conversion \<Rightarrow> string option \<Rightarrow> string" where
  "output_name c conversion_format = conversion_id c @ ''.'' @ format_str conversion_format"

definition output_endpoint :: "conversion \<Rightarrow> string option \<Rightarrow> string" where
  "output_endpoint c conversion_format =
     os_path_join (api_url (conversion.auth c)) [''v3/converter'', output_name c conversion_format]"

text \<open>\<open>os.path.join(path, name)\<close> for \<open>path\<close> a string or \<open>None\<close>.\<close>

definition path_join_opt :: "string option \<Rightarrow> string \<Rightarrow> exn + string" where
  "path_join_opt path name =
     (case path of
        None \<Rightarrow> Inl (new_exn TypeError ''expected str, bytes or os.PathLike object, not NoneType'')
      | Some p \<Rightarrow> Inr (os_path_join p [name]))"

text \<open>
  \<open>download_output_to_local_path\<close>. The \<open>raise\<close> of \<open>ConversionIncompleteError\<close> passes
  the message only. \<open>FilesystemError\<close> is raised inside \<open>except Exception\<close>, so the
  exception caught there becomes its \<open>__context__\<close>.
\<close>

definition download_output_to_local_path ::
  "conversion \<Rightarrow> string option \<Rightarrow> string option \<Rightarrow> world \<Rightarrow> (exn + string) \<times> world" where
  "download_output_to_local_path c conversion_format path w =
     (case conversion_status c w of
        (Inl e, w1) \<Rightarrow> (Inl e, w1)
      | (Inr st, w1) \<Rightarrow>
          (case incomplete_test st conversion_format of
             Inl e \<Rightarrow> (Inl e, w1)
           | Inr True \<Rightarrow> (Inl (ConversionIncompleteError_init ''Conversion not complete'' PNone), w1)
           | Inr False \<Rightarrow>
               (case get (output_endpoint c conversion_format) (headers (conversion.auth c)) w1 of
                  (Inl e, w2) \<Rightarrow> (Inl e, w2)
                | (Inr response, w2) \<Rightarrow>
                    (case (if path \<noteq> Some [] then os_makedirs path w2 else (None, w2)) of
                       (Some e, w3) \<Rightarrow> (Inl e, w3)
                     | (None, w3) \<Rightarrow>
                         (case path_join_opt path (output_name c conversion_format) of
                            Inl e \<Rightarrow> (Inl e, w3)
                          | Inr file_path \<Rightarrow>
                              (case save_stream file_path (iter_content response) w3 of
                                 (Some e, w4) \<Rightarrow>
                                   (Inl (Exn FilesystemError ''Failed to save file to system'' [] (Some e)), w4)
                               | (None, w4) \<Rightarrow> (Inr file_path, w4)))))))"

section \<open>Image\<close>

text \<open>
  The arguments of \<open>Image.__init__\<close> and of \<open>MathpixClient.image_new\<close>, which are the
  same thirty names. Python checks none of the annotations, so each is any value.
\<close>

record image_params =
  file_path :: pyval
  file_url :: pyval
  callback :: pyval
  formats :: pyval
  data_options :: pyval
  include_detected_alphabets :: pyval
  alphabets_allowed :: pyval
  region :: pyval
  enable_blue_hsv_filter :: pyval
  confidence_threshold :: pyval
  confidence_rate_threshold :: pyval
  include_equation_tags :: pyval
  include_line_data :: pyval
  include_word_data :: pyval
  include_smiles :: pyval
  include_inchi :: pyval
  include_geometry_data :: pyval
  include_diagram_text :: pyval
  auto_rotate_confidence_threshold :: pyval
  rm_spaces :: pyval
  rm_fonts :: pyval
  idiomatic_eqn_arrays :: pyval
  idiomatic_braces :: pyval
  numbers_default_to_math :: pyval
  math_fonts_default_to_math :: pyval
  math_inline_delimiters :: pyval
  math_display_delimiters :: pyval
  enable_spell_check :: pyval
  enable_tables_fallback :: pyval
  fullwidth_punctuation :: pyval

record image =
  auth :: auth
  attrs :: image_params

text \<open>
  \<open>Image.__init__\<close>: \<open>file_path or ''\<close> and \<open>file_url or ''\<close> are stored, every other
  argument as given.
\<close>

definition Image_init :: "auth option \<Rightarrow> image_params \<Rightarrow> exn + image" where
  "Image_init a p =
     (case a of
        None \<Rightarrow> Inl (new_exn AuthenticationError ''Image requires an authenticated client'')
      | Some a' \<Rightarrow>
          (let fpath = py_or (file_path p) (PStr []); furl = py_or (file_url p) (PStr []) in
           if \<not> py_truthy fpath \<and> \<not> py_truthy furl then
             Inl (new_exn ValidationError ''Image requires a file path or file URL'')
           else if py_truthy fpath \<and> py_truthy furl then
             Inl (new_exn ValidationError ''Exactly one of file path or file URL must be provider'')
           else Inr \<lparr>auth = a', attrs = p\<lparr>file_path := fpath, file_url := furl\<rparr>\<rparr>))"

text \<open>
  \<open>json.dumps\<close>: the text is kept as the value it encodes. A dict whose key is a tuple
  cannot be encoded.
\<close>

fun json_key_ok :: "pyval \<Rightarrow> bool" where
  "json_key_ok (PList _) = False"
| "json_key_ok (PTuple _) = False"
| "json_key_ok (PDict _) = False"
| "json_key_ok _ = True"

fun json_serializable :: "pyval \<Rightarrow> bool" where
  "json_serializable (PList xs) = list_all json_serializable xs"
| "json_serializable (PTuple xs) = list_all json_serializable xs"
| "json_serializable (PDict d) = list_all (\<lambda>(k, v). json_key_ok k \<and> json_serializable v) d"
| "json_serializable _ = True"

definition json_dumps :: "pyval \<Rightarrow> exn + json_text" where
  "json_dumps v =
     (if json_serializable v then Inr (JsonText v)
      else Inl (new_exn TypeError ''keys must be str, int, float, bool or None''))"

definition post :: "string \<Rightarrow> (string \<times> string) list \<Rightarrow> body \<Rightarrow> world \<Rightarrow> (exn + response) \<times> world" where
  "post endpoint hdrs b w = http_request (Post endpoint hdrs b) w"

text \<open>\<open>response.raise_for_status()\<close> raises \<open>HTTPError\<close> for a status code from 400 to 599.\<close>

definition raise_for_status :: "response \<Rightarrow> exn option" where
  "raise_for_status r =
     (if 400 \<le> status_code r \<and> status_code r < 600
      then Some (new_exn (RequestException ''HTTPError'') ''HTTP error'') else None)"

fun is_request_exception :: "exn \<Rightarrow> bool" where
  "is_request_exception (Exn (RequestException n) m a c) = True"
| "is_request_exception _ = False"

text \<open>\<open>d[k] = v\<close>: an equal key keeps its place and gets the new value.\<close>

fun dict_setitem :: "(pyval \<times> pyval) list \<Rightarrow> pyval \<Rightarrow> pyval \<Rightarrow> (pyval \<times> pyval) list" where
  "dict_setitem [] k v = [(k, v)]"
| "dict_setitem ((k', v') # d) k v =
     (if key_eq k' k then (k', v) # d else (k', v') # dict_setitem d k v)"

text \<open>
  The \<open>try\<close> block of \<open>Image.results\<close>, the same in both branches: \<open>post\<close>,
  \<open>raise_for_status\<close>, \<open>return response.json()\<close>; \<open>except RequestException\<close> raises
  \<open>ValueError\<close> with the message of the exception caught; any other exception passes.
\<close>

definition send_image :: "string \<Rightarrow> (string \<times> string) list \<Rightarrow> body \<Rightarrow> world \<Rightarrow> (exn + pyval) \<times> world" where
  "send_image endpoint hdrs b w =
     (case post endpoint hdrs b w of
        (Inl e, w1) \<Rightarrow>
          (if is_request_exception e
           then (Inl (Exn ValueError (''Mathpix image request failed: '' @ exn_msg e) [] (Some e)), w1)
           else (Inl e, w1))
      | (Inr response, w1) \<Rightarrow>
          (case raise_for_status response of
             Some e \<Rightarrow> (Inl (Exn ValueError (''Mathpix image request failed: '' @ exn_msg e) [] (Some e)), w1)
           | None \<Rightarrow>
               (case json_result response of
                  Inl e \<Rightarrow>
                    (if is_request_exception e
                     then (Inl (Exn ValueError (''Mathpix image request failed: '' @ exn_msg e) [] (Some e)), w1)
                     else (Inl e, w1))
                | Inr v \<Rightarrow> (Inr v, w1))))"

text \<open>
  \<open>Image.results(include_line_data=False)\<close>. The body never reads the parameter
  (\<open>include_line_data_arg\<close> here, as the attribute has the name): the options are built
  from \<open>self.include_line_data\<close>. With a file path the file must
  exist, is opened for reading and is closed when the \<open>with\<close> block is left.
\<close>

definition results :: "image \<Rightarrow> pyval \<Rightarrow> world \<Rightarrow> (exn + pyval) \<times> world" where
  "results self include_line_data_arg w =
     (let endpoint = os_path_join (api_url (image.auth self)) [''v3/text''];
          options = [(PStr ''include_line_data'', include_line_data (attrs self))]
      in case json_dumps (PDict options) of
           Inl e \<Rightarrow> (Inl e, w)
         | Inr dumped \<Rightarrow>
             if py_truthy (file_path (attrs self)) then
               (case file_path (attrs self) of
                  PStr p \<Rightarrow>
                    if path_parts p \<notin> dom (files w) then
                      (Inl (new_exn FileNotFoundError (''File path not found: '' @ p)), w)
                    else
                      (case os_step (OpenRead p) w of
                         (Some e, w1) \<Rightarrow> (Inl e, w1)
                       | (None, w1) \<Rightarrow>
                           (case send_image endpoint (headers (image.auth self))
                                   (MultipartBody [(''options_json'', dumped)] p) w1 of
                              (r, w2) \<Rightarrow>
                                (case file_close p w2 of
                                   (Some e', w3) \<Rightarrow>
                                     (Inl (with_context e' (case r of Inl e \<Rightarrow> Some e | Inr v \<Rightarrow> None)), w3)
                                 | (None, w3) \<Rightarrow> (r, w3))))
                | v \<Rightarrow> (Inl (new_exn TypeError (''expected str, bytes or os.PathLike object, not ''
                                                  @ py_type_name v)), w))
             else
               send_image endpoint (headers (image.auth self))
                 (JsonBody (PDict (dict_setitem options (PStr ''src'') (file_url (attrs self))))) w)"

definition lines_json :: "image \<Rightarrow> world \<Rightarrow> (exn + pyval) \<times> world" where
  "lines_json self w =
     (case results self (PBool True) w of
        (Inl e, w1) \<Rightarrow> (Inl e, w1)
      | (Inr result, w1) \<Rightarrow> (py_getitem result (PStr ''line_data''), w1))"

definition mmd :: "image \<Rightarrow> world \<Rightarrow> (exn + pyval) \<times> world" where
  "mmd self w =
     (case results self (PBool False) w of
        (Inl e, w1) \<Rightarrow> (Inl e, w1)
      | (Inr result, w1) \<Rightarrow> (py_getitem result (PStr ''text''), w1))"

section \<open>MathpixClient.image_new\<close>

record mathpix_client =
  auth :: auth

fun py_len :: "pyval \<Rightarrow> exn + nat" where
  "py_len (PStr s) = Inr (length s)"
| "py_len (PList xs) = Inr (length xs)"
| "py_len (PTuple xs) = Inr (length xs)"
| "py_len (PDict d) = Inr (length d)"
| "py_len v = Inl (new_exn TypeError (''object of type '' @ py_type_name v @ '' has no len()''))"

text \<open>
  \<open>x is not None and (x < 0 or x > 1)\<close>: comparing anything but a number with 0 raises
  \<open>TypeError\<close>.
\<close>

definition threshold_out_of_range :: "pyval \<Rightarrow> exn + bool" where
  "threshold_out_of_range v =
     (if v = PNone then Inr False
      else (case py_num v of
              None \<Rightarrow> Inl (new_exn TypeError (''< not supported between instances of ''
                                               @ py_type_name v @ '' and int''))
            | Some r \<Rightarrow> Inr (r < 0 \<or> r > 1)))"

text \<open>
  The type named by \<open>TypeError: unhashable type\<close> when the value is used as a dictionary
  key, if any: a list, a dict, or a tuple holding one.
\<close>

fun unhashable_type :: "pyval \<Rightarrow> string option"
  and unhashable_type_list :: "pyval list \<Rightarrow> string option" where
  "unhashable_type (PList xs) = Some ''list''"
| "unhashable_type (PDict d) = Some ''dict''"
| "unhashable_type (PTuple xs) = unhashable_type_list xs"
| "unhashable_type PNone = None"
| "unhashable_type (PBool b) = None"
| "unhashable_type (PInt i) = None"
| "unhashable_type (PFloat r) = None"
| "unhashable_type (PStr s) = None"
| "unhashable_type_list [] = None"
| "unhashable_type_list (x # xs) =
     (case unhashable_type x of Some t \<Rightarrow> Some t | None \<Rightarrow> unhashable_type_list xs)"

text \<open>A dict display \<open>{k1: v1, k2: v2, ...}\<close>: the items are inserted in order.\<close>

fun dict_display :: "(pyval \<times> pyval) list \<Rightarrow> (pyval \<times> pyval) list \<Rightarrow> exn + (pyval \<times> pyval) list" where
  "dict_display d [] = Inr d"
| "dict_display d ((k, v) # items) =
     (case unhashable_type k of
        Some t \<Rightarrow> Inl (new_exn TypeError (''unhashable type: '' @ t))
      | None \<Rightarrow> dict_display (dict_setitem d k v) items)"

text \<open>
  The display \<open>image_options = {callback: callback, formats: formats, ...}\<close>: the keys
  are the variables, not their names, so each argument value is used as a key.
\<close>

definition image_options_items :: "image_params \<Rightarrow> (pyval \<times> pyval) list" where
  "image_options_items p =
     [(callback p, callback p),
      (formats p, formats p),
      (data_options p, data_options p),
      (include_detected_alphabets p, include_detected_alphabets p),
      (alphabets_allowed p, alphabets_allowed p),
      (region p, region p),
      (enable_blue_hsv_filter p, enable_blue_hsv_filter p),
      (confidence_threshold p, confidence_threshold p),
      (confidence_rate_threshold p, confidence_rate_threshold p),
      (include_equation_tags p, include_equation_tags p),
      (include_line_data p, include_line_data p),
      (include_word_data p, include_word_data p),
      (include_smiles p, include_smiles p),
      (include_inchi p, include_inchi p),
      (include_geometry_data p, include_geometry_data p),
      (include_diagram_text p, include_diagram_text p),
      (auto_rotate_confidence_threshold p, auto_rotate_confidence_threshold p),
      (rm_spaces p, rm_spaces p),
      (rm_fonts p, rm_fonts p),
      (idiomatic_eqn_arrays p, idiomatic_eqn_arrays p),
      (idiomatic_braces p, idiomatic_braces p),
      (numbers_default_to_math p, numbers_default_to_math p),
      (math_fonts_default_to_math p, math_fonts_default_to_math p),
      (math_inline_delimiters p, math_inline_delimiters p),
      (math_display_delimiters p, math_display_delimiters p),
      (enable_spell_check p, enable_spell_check p),
      (enable_tables_fallback p, enable_tables_fallback p),
      (fullwidth_punctuation p, fullwidth_punctuation p)]"

fun is_str :: "pyval \<Rightarrow> bool" where
  "is_str (PStr s) = True"
| "is_str _ = False"

text \<open>
  \<open>Image(auth=self.auth, **image_options)\<close>: every key must be a string, must not
  repeat \<open>auth\<close>, and must name a parameter of \<open>Image.__init__\<close>; a parameter without a
  keyword takes its default \<open>None\<close>.
\<close>

definition image_param_names :: "string list" where
  "image_param_names =
     [''file_path'', ''file_url'', ''callback'', ''formats'', ''data_options'',
      ''include_detected_alphabets'', ''alphabets_allowed'', ''region'', ''enable_blue_hsv_filter'',
      ''confidence_threshold'', ''confidence_rate_threshold'', ''include_equation_tags'',
      ''include_line_data'', ''include_word_data'', ''include_smiles'', ''include_inchi'',
      ''include_geometry_data'', ''include_diagram_text'', ''auto_rotate_confidence_threshold'',
      ''rm_spaces'', ''rm_fonts'', ''idiomatic_eqn_arrays'', ''idiomatic_braces'',
      ''numbers_default_to_math'', ''math_fonts_default_to_math'', ''math_inline_delimiters'',
      ''math_display_delimiters'', ''enable_spell_check'', ''enable_tables_fallback'',
      ''fullwidth_punctuation'']"

definition kwarg :: "(pyval \<times> pyval) list \<Rightarrow> string \<Rightarrow> pyval" where
  "kwarg d n = (case dict_get d (PStr n) of Some v \<Rightarrow> v | None \<Rightarrow> PNone)"

definition params_of_kwargs :: "(pyval \<times> pyval) list \<Rightarrow> image_params" where
  "params_of_kwargs d =
     \<lparr>file_path = kwarg d ''file_path'', file_url = kwarg d ''file_url'',
      callback = kwarg d ''callback'', formats = kwarg d ''formats'',
      data_options = kwarg d ''data_options'',
      include_detected_alphabets = kwarg d ''include_detected_alphabets'',
      alphabets_allowed = kwarg d ''alphabets_allowed'', region = kwarg d ''region'',
      enable_blue_hsv_filter = kwarg d ''enable_blue_hsv_filter'',
      confidence_threshold = kwarg d ''confidence_threshold'',
      confidence_rate_threshold = kwarg d ''confidence_rate_threshold'',
      include_equation_tags = kwarg d ''include_equation_tags'',
      include_line_data = kwarg d ''include_line_data'',
      include_word_data = kwarg d ''include_word_data'',
      include_smiles = kwarg d ''include_smiles'', include_inchi = kwarg d ''include_inchi'',
      include_geometry_data = kwarg d ''include_geometry_data'',
      include_diagram_text = kwarg d ''include_diagram_text'',
      auto_rotate_confidence_threshold = kwarg d ''auto_rotate_confidence_threshold'',
      rm_spaces = kwarg d ''rm_spaces'', rm_fonts = kwarg d ''rm_fonts'',
      idiomatic_eqn_arrays = kwarg d ''idiomatic_eqn_arrays'',
      idiomatic_braces = kwarg d ''idiomatic_braces'',
      numbers_default_to_math = kwarg d ''numbers_default_to_math'',
      math_fonts_default_to_math = kwarg d ''math_fonts_default_to_math'',
      math_inline_delimiters = kwarg d ''math_inline_delimiters'',
      math_display_delimiters = kwarg d ''math_display_delimiters'',
      enable_spell_check = kwarg d ''enable_spell_check'',
      enable_tables_fallback = kwarg d ''enable_tables_fallback'',
      fullwidth_punctuation = kwarg d ''fullwidth_punctuation''\<rparr>"

definition Image_call :: "auth option \<Rightarrow> (pyval \<times> pyval) list \<Rightarrow> exn + image" where
  "Image_call a kwargs =
     (if \<not> list_all (\<lambda>(k, v). is_str k) kwargs then
        Inl (new_exn TypeError ''keywords must be strings'')
      else if PStr ''auth'' \<in> set (map fst kwargs) then
        Inl (new_exn TypeError ''got multiple values for keyword argument auth'')
      else if \<not> list_all (\<lambda>(k, v). k \<in> set (map PStr image_param_names)) kwargs then
        Inl (new_exn TypeError ''got an unexpected keyword argument'')
      else Image_init a (params_of_kwargs kwargs))"

definition image_new :: "mathpix_client \<Rightarrow> image_params \<Rightarrow> exn + image" where
  "image_new self p =
     (if (file_path p = PNone \<and> file_url p = PNone) \<or> (file_path p \<noteq> PNone \<and> file_url p \<noteq> PNone) then
        Inl (new_exn ValidationError ''Exactly one of file_path or file_url must be provided'')
      else
        (case py_len (formats p) of
           Inl e \<Rightarrow> Inl e
         | Inr n \<Rightarrow>
             if n \<noteq> 1 then Inl (new_exn ValidationError ''Formats can only contain one argument'')
             else
               (case threshold_out_of_range (confidence_threshold p) of
                  Inl e \<Rightarrow> Inl e
                | Inr True \<Rightarrow> Inl (new_exn ValidationError ''confidence_threshold must be between 0 and 1'')
                | Inr False \<Rightarrow>
                    (case threshold_out_of_range (confidence_rate_threshold p) of
                       Inl e \<Rightarrow> Inl e
                     | Inr True \<Rightarrow>
                         Inl (new_exn ValidationError ''confidence_rate_threshold must be between 0 and 1'')
                     | Inr False \<Rightarrow>
                         (case threshold_out_of_range (auto_rotate_confidence_threshold p) of
                            Inl e \<Rightarrow> Inl e
                          | Inr True \<Rightarrow>
                              Inl (new_exn ValidationError
                                     ''auto_rotate_confidence_threshold must be between 0 and 1'')
                          | Inr False \<Rightarrow>
                              (case dict_display [] (image_options_items p) of
                                 Inl e \<Rightarrow> Inl e
                               | Inr image_options \<Rightarrow>
                                   Image_call (Some (mathpix_client.auth self))
                                     (if py_truthy (file_path p)
                                      then dict_setitem image_options (PStr ''file_path'') (file_path p)
                                      else dict_setitem image_options (PStr ''file_url'') (file_url p))))))))"

section \<open>Status payloads and example environments\<close>

text \<open>
  The shape of a status payload: \<open>{"status": s, "conversion_status": {format:
  {"status": t}, ...}}\<close>. The predicates below classify a decoded payload the way the
  polling contract words it; they describe inputs and are not part of the client.
\<close>

definition job_status :: "pyval \<Rightarrow> pyval option" where
  "job_status st = (case st of PDict d \<Rightarrow> dict_get d (PStr ''status'') | _ \<Rightarrow> None)"

definition job_formats :: "pyval \<Rightarrow> (pyval \<times> pyval) list option" where
  "job_formats st =
     (case st of
        PDict d \<Rightarrow> (case dict_get d (PStr ''conversion_status'') of Some (PDict fs) \<Rightarrow> Some fs | _ \<Rightarrow> None)
      | _ \<Rightarrow> None)"

definition format_terminal :: "pyval \<times> pyval \<Rightarrow> bool" where
  "format_terminal item =
     (job_status (snd item) = Some (PStr ''completed'') \<or> job_status (snd item) = Some (PStr ''error''))"

text \<open>Overall \<open>completed\<close> and every format \<open>completed\<close> or \<open>error\<close>.\<close>

definition is_success :: "pyval \<Rightarrow> bool" where
  "is_success st =
     (job_status st = Some (PStr ''completed'') \<and>
      (case job_formats st of Some fs \<Rightarrow> list_all format_terminal fs | None \<Rightarrow> False))"

text \<open>Overall \<open>error\<close>.\<close>

definition is_hard_failure :: "pyval \<Rightarrow> bool" where
  "is_hard_failure st = (job_status st = Some (PStr ''error''))"

text \<open>
  Neither of the two: a well-formed payload that is not overall \<open>error\<close> and, when
  overall \<open>completed\<close>, has a format that is neither \<open>completed\<close> nor \<open>error\<close>.
\<close>

definition is_pending :: "pyval \<Rightarrow> bool" where
  "is_pending st =
     (case job_status st of
        None \<Rightarrow> False
      | Some s \<Rightarrow>
          if s = PStr ''error'' then False
          else if s = PStr ''completed'' then
            (case job_formats st of
               None \<Rightarrow> False
             | Some fs \<Rightarrow> list_all (\<lambda>item. job_status (snd item) \<noteq> None) fs \<and> \<not> list_all format_terminal fs)
          else True)"

text \<open>The payload the environment delivers for the request of index \<open>i\<close>, if it delivers one.\<close>

definition fetched :: "world \<Rightarrow> nat \<Rightarrow> pyval option" where
  "fetched w i =
     (case http_script w i of
        Inl e \<Rightarrow> None
      | Inr r \<Rightarrow> (case json_result r of Inl e \<Rightarrow> None | Inr st \<Rightarrow> Some st))"

definition status_request :: "conversion \<Rightarrow> request" where
  "status_request c = Get (status_endpoint c) (headers (conversion.auth c))"

text \<open>The world after \<open>n\<close> more status requests and \<open>k\<close> more seconds of sleep.\<close>

definition after_polls :: "conversion \<Rightarrow> nat \<Rightarrow> nat \<Rightarrow> world \<Rightarrow> world" where
  "after_polls c n k w = w\<lparr>http_log := http_log w @ replicate n (status_request c), slept := slept w + k\<rparr>"

text \<open>Concrete environments for evaluating the client.\<close>

definition json_response :: "pyval \<Rightarrow> response" where
  "json_response st = \<lparr>status_code = 200, json_result = Inr st, content = [], iter_content = []\<rparr>"

definition script_of :: "(exn + response) list \<Rightarrow> nat \<Rightarrow> exn + response" where
  "script_of rs i =
     (if i < length rs then rs ! i else Inl (new_exn (RequestException ''ConnectionError'') ''no response''))"

definition fresh_world :: "(nat \<Rightarrow> exn + response) \<Rightarrow> world" where
  "fresh_world script =
     \<lparr>http_script = script, http_log = [], slept = 0, os_script = (\<lambda>i. None), os_log = [],
      dirs = {}, files = Map.empty\<rparr>"

definition example_conversion :: conversion where
  "example_conversion =
     \<lparr>conversion.auth = \<lparr>api_url = ''https://api.mathpix.com'', headers = [(''app_id'', ''id''), (''app_key'', ''key'')]\<rparr>,
      conversion_id = ''c1'', conversion_formats = PDict [(PStr ''docx'', PBool True)]\<rparr>"

definition status_payload :: "string \<Rightarrow> (string \<times> string) list \<Rightarrow> pyval" where
  "status_payload s fs =
     PDict [(PStr ''status'', PStr s),
            (PStr ''conversion_status'', PDict (map (\<lambda>(f, t). (PStr f, PDict [(PStr ''status'', PStr t)])) fs))]"


text \<open>The entry of format \<open>fmt\<close> in the payload has status \<open>completed\<close>.\<close>

definition format_completed :: "pyval \<Rightarrow> string \<Rightarrow> bool" where
  "format_completed st fmt =
     (case job_formats st of
        None \<Rightarrow> False
      | Some fs \<Rightarrow>
          (case dict_get fs (PStr fmt) of
             None \<Rightarrow> False
           | Some fd \<Rightarrow> job_status fd = Some (PStr ''completed'')))"

definition output_request :: "conversion \<Rightarrow> string \<Rightarrow> request" where
  "output_request c fmt = Get (output_endpoint c (Some fmt)) (headers (conversion.auth c))"

text \<open>
  The world when the writing starts: the status request and the download request are
  logged and, for a non-empty directory path, \<open>os.makedirs\<close> has succeeded.
\<close>

definition before_write :: "conversion \<Rightarrow> string \<Rightarrow> string \<Rightarrow> world \<Rightarrow> world" where
  "before_write c fmt path w =
     (if path = [] then w\<lparr>http_log := http_log w @ [status_request c, output_request c fmt]\<rparr>
      else w\<lparr>http_log := http_log w @ [status_request c, output_request c fmt],
             os_log := os_log w @ [Makedirs path],
             dirs := dirs w \<union> ancestors_and_self (path_parts path)\<rparr>)"

definition stream_response :: "(exn + bytes) list \<Rightarrow> response" where
  "stream_response stream =
     \<lparr>status_code = 200,
      json_result = Inl (new_exn (RequestException ''JSONDecodeError'') ''not JSON''),
      content = concat (map (case_sum (\<lambda>e. []) (\<lambda>ch. ch)) stream),
      iter_content = stream\<rparr>"

definition disk_full :: exn where
  "disk_full = new_exn (OSError ''OSError'') ''No space left on device''"

definition download_world :: "(exn + bytes) list \<Rightarrow> (nat \<Rightarrow> exn option) \<Rightarrow> world" where
  "download_world stream os_outcomes =
     (fresh_world (script_of [Inr (json_response (status_payload ''completed'' [(''docx'', ''completed'')])),
                              Inr (stream_response stream)]))
       \<lparr>os_script := os_outcomes\<rparr>"

text \<open>The arguments get through every explicit check of \<open>image_new\<close>.\<close>

definition passes_checks :: "image_params \<Rightarrow> bool" where
  "passes_checks p =
     ((file_path p = PNone) \<noteq> (file_url p = PNone) \<and>
      py_len (formats p) = Inr 1 \<and>
      threshold_out_of_range (confidence_threshold p) = Inr False \<and>
      threshold_out_of_range (confidence_rate_threshold p) = Inr False \<and>
      threshold_out_of_range (auto_rotate_confidence_threshold p) = Inr False)"

definition no_params :: image_params where
  "no_params =
     \<lparr>file_path = PNone, file_url = PNone, callback = PNone, formats = PNone, data_options = PNone,
      include_detected_alphabets = PNone, alphabets_allowed = PNone, region = PNone,
      enable_blue_hsv_filter = PNone, confidence_threshold = PNone, confidence_rate_threshold = PNone,
      include_equation_tags = PNone, include_line_data = PNone, include_word_data = PNone,
      include_smiles = PNone, include_inchi = PNone, include_geometry_data = PNone,
      include_diagram_text = PNone, auto_rotate_confidence_threshold = PNone, rm_spaces = PNone,
      rm_fonts = PNone, idiomatic_eqn_arrays = PNone, idiomatic_braces = PNone,
      numbers_default_to_math = PNone, math_fonts_default_to_math = PNone,
      math_inline_delimiters = PNone, math_display_delimiters = PNone, enable_spell_check = PNone,
      enable_tables_fallback = PNone, fullwidth_punctuation = PNone\<rparr>"

definition url_image :: "string \<Rightarrow> pyval \<Rightarrow> image" where
  "url_image u line_data =
     \<lparr>image.auth = conversion.auth example_conversion,
      attrs = no_params\<lparr>file_path := PStr [], file_url := PStr u, include_line_data := line_data\<rparr>\<rparr>"

definition example_client :: mathpix_client where
  "example_client = \<lparr>mathpix_client.auth = conversion.auth example_conversion\<rparr>"

text \<open>
  The classes that stand for the four typed errors of the error taxonomy: invalid
  argument (\<open>ValueError\<close>, \<open>ValidationError\<close>, \<open>AuthenticationError\<close>), remote error
  (\<open>MathpixClientError\<close>), incomplete job (\<open>ConversionIncompleteError\<close>) and
  \<open>FilesystemError\<close>.
\<close>

fun typed_error_class :: "exn_class \<Rightarrow> bool" where
  "typed_error_class ValueError = True"
| "typed_error_class ValidationError = True"
| "typed_error_class AuthenticationError = True"
| "typed_error_class MathpixClientError = True"
| "typed_error_class ConversionIncompleteError = True"
| "typed_error_class FilesystemError = True"
| "typed_error_class _ = False"

definition typed_error :: "exn \<Rightarrow> bool" where
  "typed_error e = typed_error_class (exn_cls e)"

text \<open>
  A status answer whose body is not JSON, such as the error page of a gateway:
  \<open>response.json()\<close> raises \<open>requests.exceptions.JSONDecodeError\<close>, a subclass of
  \<open>RequestException\<close>.
\<close>

definition json_decode_error :: exn where
  "json_decode_error =
     new_exn (RequestException ''JSONDecodeError'') ''Expecting value: line 1 column 1 (char 0)''"

definition not_json_response :: response where
  "not_json_response =
     \<lparr>status_code = 502, json_result = Inl json_decode_error, content = [], iter_content = []\<rparr>"

text \<open>The exception of \<open>os.makedirs\<close> for a directory that may not be created.\<close>

definition permission_error :: exn where
  "permission_error = new_exn (OSError ''PermissionError'') ''Permission denied''"

section \<open>Properties of the completion poller\<close>

lemma job_status_getitem: "job_status st = Some s \<Longrightarrow> py_getitem st (PStr ''status'') = Inr s"
  by (cases st) (auto simp: job_status_def)

lemma all_formats_done_terminal: "list_all format_terminal fs \<Longrightarrow> all_formats_done fs = Inr True"
  by (induction fs) (auto simp: format_terminal_def dest!: job_status_getitem)

lemma all_formats_done_not_terminal:
  "list_all (\<lambda>item. job_status (snd item) \<noteq> None) fs \<Longrightarrow> \<not> list_all format_terminal fs \<Longrightarrow>
   all_formats_done fs = Inr False"
proof (induction fs)
  case Nil
  then show ?case by simp
next
  case (Cons item fs)
  obtain name fd where item: "item = (name, fd)" by (cases item)
  from Cons.prems item obtain s where s: "job_status fd = Some s" by auto
  show ?case
  proof (cases "format_terminal item")
    case True
    with Cons item s show ?thesis
      by (auto simp: format_terminal_def dest!: job_status_getitem)
  next
    case False
    with item s show ?thesis
      by (auto simp: format_terminal_def dest!: job_status_getitem)
  qed
qed

lemma job_formats_getitem:
  "job_formats st = Some fs \<Longrightarrow> py_getitem st (PStr ''conversion_status'') = Inr (PDict fs)"
  by (cases st) (auto simp: job_formats_def split: option.splits pyval.splits)

lemma success_test_success: "is_success st \<Longrightarrow> success_test st = Inr True"
  by (auto simp: is_success_def success_test_def all_formats_done_terminal
           dest!: job_status_getitem job_formats_getitem split: option.splits)

lemma success_test_hard_failure:
  "is_hard_failure st \<Longrightarrow> success_test st = Inr False \<and> py_getitem st (PStr ''status'') = Inr (PStr ''error'')"
  by (auto simp: is_hard_failure_def success_test_def dest!: job_status_getitem)

lemma success_test_pending:
  "is_pending st \<Longrightarrow> success_test st = Inr False \<and> (\<exists>s. py_getitem st (PStr ''status'') = Inr s \<and> s \<noteq> PStr ''error'')"
  by (auto simp: is_pending_def success_test_def all_formats_done_not_terminal
           dest!: job_status_getitem job_formats_getitem split: option.splits if_splits)

lemma conversion_status_fetched:
  "fetched w (length (http_log w)) = Some st \<Longrightarrow>
   conversion_status c w = (Inr st, w\<lparr>http_log := http_log w @ [status_request c]\<rparr>)"
  by (auto simp: fetched_def conversion_status_def get_def http_request_def status_request_def
           split: sum.splits)

text \<open>
  While the payloads are pending, each pass of the loop makes one status request,
  sleeps one second and adds one to \<open>attempt\<close>.
\<close>

lemma wait_loop_pending_prefix:
  "\<forall>j<n. \<exists>st. fetched w (length (http_log w) + j) = Some st \<and> is_pending st \<Longrightarrow>
   attempt + int n \<le> timeout \<Longrightarrow>
   wait_loop c timeout attempt False w = wait_loop c timeout (attempt + int n) False (after_polls c n n w)"
proof (induction n arbitrary: attempt w)
  case 0
  then show ?case by (simp add: after_polls_def)
next
  case (Suc n)
  from Suc.prems(1) obtain st where st: "fetched w (length (http_log w)) = Some st" "is_pending st"
    by force
  let ?w1 = "w\<lparr>http_log := http_log w @ [status_request c]\<rparr>"
  let ?w2 = "time_sleep 1 ?w1"
  have step: "wait_loop c timeout attempt False w = wait_loop c timeout (attempt + 1) False ?w2"
    using Suc.prems(2) st success_test_pending[OF st(2)]
    by (subst wait_loop.simps) (auto simp: conversion_status_fetched)
  have pre: "\<forall>j<n. \<exists>st. fetched ?w2 (length (http_log ?w2) + j) = Some st \<and> is_pending st"
  proof (intro allI impI)
    fix j assume "j < n"
    then have "Suc j < Suc n" by simp
    with Suc.prems(1) obtain st' where "fetched w (length (http_log w) + Suc j) = Some st'" "is_pending st'"
      by blast
    then show "\<exists>st. fetched ?w2 (length (http_log ?w2) + j) = Some st \<and> is_pending st"
      by (auto simp: fetched_def time_sleep_def)
  qed
  have "wait_loop c timeout (attempt + 1) False ?w2
        = wait_loop c timeout (attempt + 1 + int n) False (after_polls c n n ?w2)"
    using Suc.IH[OF pre] Suc.prems(2) by simp
  moreover have "after_polls c n n ?w2 = after_polls c (Suc n) (Suc n) w"
    by (simp add: after_polls_def time_sleep_def replicate_append_same)
  ultimately show ?case using step by (simp add: add.assoc)
qed

lemma wait_loop_exhausted: "\<not> attempt < timeout \<Longrightarrow> wait_loop c timeout attempt completed w = (Inr completed, w)"
  by (subst wait_loop.simps) simp

text \<open>
  C1. When a poll delivers a payload whose overall status is \<open>completed\<close> and whose
  format entries are all \<open>completed\<close> or \<open>error\<close>, \<open>wait_until_complete\<close> returns
  \<open>True\<close> at that fetch: after \<open>n\<close> pending polls the successful one is request
  \<open>n + 1\<close>, no further request is made and no further second is slept. A format in
  \<open>error\<close> does not block success: the witness is the payload
  \<open>{docx: completed, tex: error}\<close> with overall \<open>completed\<close>.
\<close>

theorem wait_until_complete_success:
  assumes "\<forall>j<n. \<exists>st. fetched w (length (http_log w) + j) = Some st \<and> is_pending st"
    and "fetched w (length (http_log w) + n) = Some st"
    and "is_success st"
    and "py_isinstance_int timeout"
    and "int n + 1 < py_int_value timeout"
  shows "wait_until_complete c timeout w = (Inr True, after_polls c (Suc n) n w)"
proof -
  let ?t = "py_int_value timeout"
  let ?w = "after_polls c n n w"
  have "wait_loop c ?t 1 False w = wait_loop c ?t (1 + int n) False ?w"
    using assms(1,5) by (intro wait_loop_pending_prefix) auto
  moreover have "fetched ?w (length (http_log ?w)) = Some st"
    using assms(2) by (simp add: after_polls_def fetched_def)
  then have "wait_loop c ?t (1 + int n) False ?w = (Inr True, ?w\<lparr>http_log := http_log ?w @ [status_request c]\<rparr>)"
    using assms(5) success_test_success[OF assms(3)]
    by (subst wait_loop.simps) (simp add: conversion_status_fetched)
  moreover have "?w\<lparr>http_log := http_log ?w @ [status_request c]\<rparr> = after_polls c (Suc n) n w"
    by (simp add: after_polls_def replicate_append_same)
  ultimately show ?thesis
    using assms(4,5) by (simp add: wait_until_complete_def)
qed

theorem wait_until_complete_success_witness:
  "is_success (status_payload ''completed'' [(''docx'', ''completed''), (''tex'', ''error'')]) \<and>
   wait_until_complete example_conversion (PInt 5)
     (fresh_world (\<lambda>i. Inr (json_response (status_payload ''completed'' [(''docx'', ''completed''), (''tex'', ''error'')]))))
   = (Inr True,
      after_polls example_conversion 1 0
        (fresh_world (\<lambda>i. Inr (json_response (status_payload ''completed'' [(''docx'', ''completed''), (''tex'', ''error'')])))))"
  using wait_until_complete_success [of 0
      "fresh_world (\<lambda>i. Inr (json_response (status_payload ''completed'' [(''docx'', ''completed''), (''tex'', ''error'')])))"
      "status_payload ''completed'' [(''docx'', ''completed''), (''tex'', ''error'')]" "PInt 5" example_conversion]
  by (simp add: is_success_def job_status_def job_formats_def format_terminal_def status_payload_def
        fetched_def fresh_world_def json_response_def)

text \<open>
  C2. For a positive integer timeout \<open>t\<close> and payloads that stay pending,
  \<open>wait_until_complete\<close> makes exactly \<open>t - 1\<close> status requests (none when
  \<open>t = 1\<close>) and returns \<open>False\<close>. With \<open>t = 3\<close> there are two requests.
\<close>

theorem wait_until_complete_timeout:
  assumes "py_isinstance_int timeout"
    and "0 < py_int_value timeout"
    and "\<forall>j < nat (py_int_value timeout - 1). \<exists>st. fetched w (length (http_log w) + j) = Some st \<and> is_pending st"
  shows "wait_until_complete c timeout w
         = (Inr False, after_polls c (nat (py_int_value timeout - 1)) (nat (py_int_value timeout - 1)) w)"
proof -
  let ?t = "py_int_value timeout"
  let ?n = "nat (?t - 1)"
  have "wait_loop c ?t 1 False w = wait_loop c ?t (1 + int ?n) False (after_polls c ?n ?n w)"
    using assms(2,3) by (intro wait_loop_pending_prefix) auto
  moreover have "1 + int ?n = ?t" using assms(2) by simp
  ultimately have "wait_loop c ?t 1 False w = (Inr False, after_polls c ?n ?n w)"
    by (simp add: wait_loop_exhausted)
  then show ?thesis
    using assms(1,2) by (simp add: wait_until_complete_def)
qed

theorem wait_until_complete_timeout_witness:
  "is_pending (status_payload ''processing'' [(''docx'', ''processing'')]) \<and>
   fst (wait_until_complete example_conversion (PInt 3)
     (fresh_world (\<lambda>i. Inr (json_response (status_payload ''processing'' [(''docx'', ''processing'')])))))
   = Inr False \<and>
   length (http_log (snd (wait_until_complete example_conversion (PInt 3)
     (fresh_world (\<lambda>i. Inr (json_response (status_payload ''processing'' [(''docx'', ''processing'')]))))))) = 2"
  using wait_until_complete_timeout [of "PInt 3"
      "fresh_world (\<lambda>i. Inr (json_response (status_payload ''processing'' [(''docx'', ''processing'')])))"
      example_conversion]
  by (simp add: is_pending_def job_status_def job_formats_def status_payload_def
        fetched_def fresh_world_def json_response_def after_polls_def)

text \<open>
  C3. When a poll delivers overall status \<open>error\<close>, the loop is left at once:
  \<open>wait_until_complete\<close> returns \<open>False\<close>, raises nothing, and the request of that
  poll is the last one. For the payloads \<open>[processing, error]\<close> and timeout 5 there are
  two requests.
\<close>

theorem wait_until_complete_hard_failure:
  assumes "\<forall>j<n. \<exists>st. fetched w (length (http_log w) + j) = Some st \<and> is_pending st"
    and "fetched w (length (http_log w) + n) = Some st"
    and "is_hard_failure st"
    and "py_isinstance_int timeout"
    and "int n + 1 < py_int_value timeout"
  shows "wait_until_complete c timeout w = (Inr False, after_polls c (Suc n) n w)"
proof -
  let ?t = "py_int_value timeout"
  let ?w = "after_polls c n n w"
  have "wait_loop c ?t 1 False w = wait_loop c ?t (1 + int n) False ?w"
    using assms(1,5) by (intro wait_loop_pending_prefix) auto
  moreover have "fetched ?w (length (http_log ?w)) = Some st"
    using assms(2) by (simp add: after_polls_def fetched_def)
  then have "wait_loop c ?t (1 + int n) False ?w = (Inr False, ?w\<lparr>http_log := http_log ?w @ [status_request c]\<rparr>)"
    using assms(5) success_test_hard_failure[OF assms(3)]
    by (subst wait_loop.simps) (simp add: conversion_status_fetched)
  moreover have "?w\<lparr>http_log := http_log ?w @ [status_request c]\<rparr> = after_polls c (Suc n) n w"
    by (simp add: after_polls_def replicate_append_same)
  ultimately show ?thesis
    using assms(4,5) by (simp add: wait_until_complete_def)
qed

theorem wait_until_complete_hard_failure_witness:
  "is_pending (status_payload ''processing'' []) \<and> is_hard_failure (status_payload ''error'' []) \<and>
   fst (wait_until_complete example_conversion (PInt 5)
     (fresh_world (script_of [Inr (json_response (status_payload ''processing'' [])),
                              Inr (json_response (status_payload ''error'' []))])))
   = Inr False \<and>
   length (http_log (snd (wait_until_complete example_conversion (PInt 5)
     (fresh_world (script_of [Inr (json_response (status_payload ''processing'' [])),
                              Inr (json_response (status_payload ''error'' []))]))))) = 2"
  using wait_until_complete_hard_failure [of 1
      "fresh_world (script_of [Inr (json_response (status_payload ''processing'' [])),
                              Inr (json_response (status_payload ''error'' []))])"
      "status_payload ''error'' []" "PInt 5" example_conversion]
  by (simp add: is_pending_def is_hard_failure_def job_status_def job_formats_def status_payload_def
        fetched_def fresh_world_def json_response_def after_polls_def script_of_def)

text \<open>
  C4. A timeout that is not a positive integer (not an instance of \<open>int\<close>, or at
  most 0) makes \<open>wait_until_complete\<close> raise before any request: the world is
  unchanged. The class raised for this invalid argument is the builtin \<open>ValueError\<close>.
  A \<open>bool\<close> is an instance of \<open>int\<close> in Python, so \<open>True\<close> counts as the integer 1.
\<close>

theorem wait_until_complete_invalid_timeout:
  assumes "\<not> (py_isinstance_int timeout \<and> 0 < py_int_value timeout)"
  shows "wait_until_complete c timeout w
         = (Inl (new_exn ValueError ''Timeout must be a positive, non-zero integer''), w)"
  using assms by (auto simp: wait_until_complete_def)

theorem wait_until_complete_invalid_timeout_witness:
  "\<not> (py_isinstance_int (PInt 0) \<and> 0 < py_int_value (PInt 0)) \<and>
   \<not> (py_isinstance_int (PFloat 2.5) \<and> 0 < py_int_value (PFloat 2.5)) \<and>
   wait_until_complete example_conversion (PInt 0) (fresh_world (script_of []))
     = (Inl (new_exn ValueError ''Timeout must be a positive, non-zero integer''), fresh_world (script_of [])) \<and>
   http_log (snd (wait_until_complete example_conversion (PFloat 2.5) (fresh_world (script_of [])))) = []"
  using wait_until_complete_invalid_timeout [of "PInt 0" example_conversion "fresh_world (script_of [])"]
    wait_until_complete_invalid_timeout [of "PFloat 2.5" example_conversion "fresh_world (script_of [])"]
  by (simp add: fresh_world_def)

section \<open>Properties of the safe download\<close>

lemma key_eq_PStr: "key_eq k (PStr s) \<longleftrightarrow> k = PStr s"
  by (cases k) auto

lemma dict_get_PStr_key: "dict_get d (PStr s) = Some v \<Longrightarrow> PStr s \<in> fst ` set d"
  by (induction d) (auto simp: key_eq_PStr split: if_splits)

lemma format_completed_test: "format_completed st fmt \<Longrightarrow> incomplete_test st (Some fmt) = Inr False"
proof -
  assume a: "format_completed st fmt"
  then obtain fs fd where fs: "job_formats st = Some fs" and fd: "dict_get fs (PStr fmt) = Some fd"
    and s: "job_status fd = Some (PStr ''completed'')"
    by (auto simp: format_completed_def split: option.splits)
  from fs obtain d where d: "st = PDict d" "dict_get d (PStr ''conversion_status'') = Some (PDict fs)"
    by (cases st) (auto simp: job_formats_def split: option.splits pyval.splits)
  have c: "py_contains_str st ''conversion_status'' = Inr True"
    using d dict_get_PStr_key[OF d(2)] by simp
  show ?thesis
    using c d fd job_status_getitem[OF s]
    by (simp add: incomplete_test_def format_key_def)
qed

lemma download_reaches_write:
  assumes "fetched w (length (http_log w)) = Some st"
    and "format_completed st fmt"
    and "http_script w (Suc (length (http_log w))) = Inr resp"
    and "path \<noteq> [] \<longrightarrow> os_script w (length (os_log w)) = None"
  shows "download_output_to_local_path c (Some fmt) (Some path) w =
         (case save_stream (os_path_join path [output_name c (Some fmt)]) (iter_content resp)
                 (before_write c fmt path w) of
            (Some e, w4) \<Rightarrow> (Inl (Exn FilesystemError ''Failed to save file to system'' [] (Some e)), w4)
          | (None, w4) \<Rightarrow> (Inr (os_path_join path [output_name c (Some fmt)]), w4))"
  using assms format_completed_test[OF assms(2)]
  by (simp add: download_output_to_local_path_def conversion_status_fetched get_def http_request_def
        os_makedirs_def os_step_def path_join_opt_def before_write_def output_request_def
      split: prod.splits option.splits)

lemma write_chunks_good_prefix:
  "\<forall>i < length (filter (\<lambda>ch. ch \<noteq> []) cs). os_script w (length (os_log w) + i) = None \<Longrightarrow>
   files w (path_parts fp) = Some old \<Longrightarrow>
   write_chunks fp (map Inr cs @ rest) w =
   write_chunks fp rest
     (w\<lparr>os_log := os_log w @ map (Write fp) (filter (\<lambda>ch. ch \<noteq> []) cs),
        files := (files w)(path_parts fp \<mapsto> old @ concat cs)\<rparr>)"
proof (induction cs arbitrary: w old)
  case Nil
  then have "(files w)(path_parts fp \<mapsto> old) = files w" by (simp add: fun_upd_idem)
  then show ?case by simp
next
  case (Cons ch cs)
  show ?case
  proof (cases "ch = []")
    case True
    have "\<forall>i < length (filter (\<lambda>ch. ch \<noteq> []) cs). os_script w (length (os_log w) + i) = None"
      using Cons.prems(1) True by simp
    from Cons.IH[OF this Cons.prems(2)] True show ?thesis by simp
  next
    case False
    let ?w1 = "w\<lparr>os_log := os_log w @ [Write fp ch], files := (files w)(path_parts fp \<mapsto> old @ ch)\<rparr>"
    have "0 < length (filter (\<lambda>ch. ch \<noteq> []) (ch # cs))" using False by simp
    with Cons.prems(1) have "os_script w (length (os_log w) + 0) = None" by blast
    then have ok: "os_script w (length (os_log w)) = None" by simp
    have fw: "file_write fp ch w = (None, ?w1)"
      using ok Cons.prems(2) by (simp add: file_write_def os_step_def)
    have pre: "\<forall>i < length (filter (\<lambda>ch. ch \<noteq> []) cs). os_script ?w1 (length (os_log ?w1) + i) = None"
    proof (intro allI impI)
      fix i assume "i < length (filter (\<lambda>ch. ch \<noteq> []) cs)"
      then have "Suc i < length (filter (\<lambda>ch. ch \<noteq> []) (ch # cs))" using False by simp
      with Cons.prems(1) have "os_script w (length (os_log w) + Suc i) = None" by blast
      then show "os_script ?w1 (length (os_log ?w1) + i) = None" by simp
    qed
    have f1: "files ?w1 (path_parts fp) = Some (old @ ch)" by simp
    have a: "write_chunks fp (map Inr (ch # cs) @ rest) w = write_chunks fp (map Inr cs @ rest) ?w1"
      using False fw by simp
    have c: "?w1\<lparr>os_log := os_log ?w1 @ map (Write fp) (filter (\<lambda>ch. ch \<noteq> []) cs),
                 files := (files ?w1)(path_parts fp \<mapsto> (old @ ch) @ concat cs)\<rparr>
             = w\<lparr>os_log := os_log w @ map (Write fp) (filter (\<lambda>ch. ch \<noteq> []) (ch # cs)),
                 files := (files w)(path_parts fp \<mapsto> old @ concat (ch # cs))\<rparr>"
      using False by simp
    show ?thesis
      unfolding a Cons.IH[OF pre f1] c ..
  qed
qed

lemma split_slash_nonempty: "split_slash s \<noteq> []"
  by (induction s) (auto split: list.splits)

lemma split_slash_no_slash: "CHR ''/'' \<notin> set name \<Longrightarrow> split_slash name = [name]"
  by (induction name) auto

lemma split_slash_append:
  "CHR ''/'' \<notin> set name \<Longrightarrow> split_slash (p @ CHR ''/'' # name) = split_slash p @ [name]"
proof (induction p)
  case Nil
  then show ?case by (simp add: split_slash_no_slash)
next
  case (Cons c p)
  then show ?case using split_slash_nonempty[of p]
    by (cases "split_slash p") auto
qed

lemma path_parts_nonempty: "p \<noteq> [] \<Longrightarrow> path_parts p \<noteq> []"
proof (cases p)
  case Nil
  then show "p \<noteq> [] \<Longrightarrow> ?thesis" by simp
next
  case (Cons c cs)
  show ?thesis
  proof (cases "c = CHR ''/''")
    case True
    with Cons show ?thesis by (simp add: path_parts_def)
  next
    case False
    with Cons split_slash_nonempty[of cs] show ?thesis
      by (cases "split_slash cs") (auto simp: path_parts_def)
  qed
qed

lemma path_parts_join:
  assumes "p \<noteq> []" "name \<noteq> []" "CHR ''/'' \<notin> set name"
  shows "path_parts (os_path_join p [name]) = path_parts p @ [name]"
proof (cases "last p = CHR ''/''")
  case True
  with assms(1) obtain q where q: "p = q @ [CHR ''/'']"
    using append_butlast_last_id[of p] by metis
  have j: "os_path_join p [name] = q @ CHR ''/'' # name"
    using assms True q by (cases name) (auto simp: os_path_join_def join2_def)
  have "split_slash p = split_slash q @ [[]]"
    using split_slash_append[of "[]" q] q by simp
  moreover have "split_slash (q @ CHR ''/'' # name) = split_slash q @ [name]"
    using assms(3) by (rule split_slash_append)
  moreover have "hd (q @ CHR ''/'' # name) = hd p" using q by (cases q) auto
  ultimately show ?thesis using j assms(1,2) by (simp add: path_parts_def)
next
  case False
  have j: "os_path_join p [name] = p @ CHR ''/'' # name"
    using assms False by (cases name) (auto simp: os_path_join_def join2_def)
  have "split_slash (p @ CHR ''/'' # name) = split_slash p @ [name]"
    using assms(3) by (rule split_slash_append)
  moreover have "hd (p @ CHR ''/'' # name) = hd p" using assms(1) by (cases p) auto
  ultimately show ?thesis using j assms(1,2) by (simp add: path_parts_def)
qed

lemma self_in_ancestors: "ps \<noteq> [] \<Longrightarrow> ps \<in> ancestors_and_self ps"
proof -
  assume "ps \<noteq> []"
  then have "length ps \<in> set [1..<Suc (length ps)]" by (cases ps) auto
  then have "take (length ps) ps \<in> ancestors_and_self ps"
    unfolding ancestors_and_self_def set_map by (rule imageI)
  then show ?thesis by simp
qed

lemma download_incomplete:
  assumes "fetched w (length (http_log w)) = Some st"
    and "incomplete_test st conversion_format = Inr True"
  shows "download_output_to_local_path c conversion_format path w =
         (Inl (Exn ConversionIncompleteError ''Conversion not complete'' [(''status_info'', PDict [])] None),
          w\<lparr>http_log := http_log w @ [status_request c]\<rparr>)"
  using assms
  by (simp add: download_output_to_local_path_def conversion_status_fetched
        ConversionIncompleteError_init_def py_or_def)

lemma before_write_fields:
  "os_script (before_write c fmt path w) = os_script w"
  "files (before_write c fmt path w) = files w"
  "length (os_log (before_write c fmt path w)) = length (os_log w) + (if path = [] then 0 else 1)"
  by (simp_all add: before_write_def)

lemma save_stream_success:
  assumes "\<forall>i. length (os_log w) \<le> i \<longrightarrow> os_script w i = None"
  shows "save_stream fp (map Inr chunks) w =
         (None, w\<lparr>os_log := os_log w @ [OpenWrite fp] @ map (Write fp) (filter (\<lambda>ch. ch \<noteq> []) chunks) @ [Close fp],
                 files := (files w)(path_parts fp \<mapsto> concat chunks)\<rparr>)"
proof -
  define wa where "wa = w\<lparr>os_log := os_log w @ [OpenWrite fp], files := (files w)(path_parts fp \<mapsto> [])\<rparr>"
  define wb where "wb = wa\<lparr>os_log := os_log wa @ map (Write fp) (filter (\<lambda>ch. ch \<noteq> []) chunks),
                 files := (files wa)(path_parts fp \<mapsto> [] @ concat chunks)\<rparr>"
  define wc where "wc = wb\<lparr>os_log := os_log wb @ [Close fp]\<rparr>"
  have op: "open_wb fp w = (None, wa)"
    using assms by (simp add: open_wb_def os_step_def wa_def)
  have "\<forall>i < length (filter (\<lambda>ch. ch \<noteq> []) chunks). os_script wa (length (os_log wa) + i) = None"
    using assms by (simp add: wa_def)
  moreover have "files wa (path_parts fp) = Some []" by (simp add: wa_def)
  ultimately have "write_chunks fp (map Inr chunks @ []) wa = write_chunks fp [] wb"
    unfolding wb_def by (rule write_chunks_good_prefix)
  then have wr: "write_chunks fp (map Inr chunks) wa = (None, wb)" by simp
  have cl: "file_close fp wb = (None, wc)"
    using assms by (simp add: file_close_def os_step_def wa_def wb_def wc_def)
  have "save_stream fp (map Inr chunks) w = (None, wc)"
    by (simp add: save_stream_def op wr cl)
  moreover have "wc = w\<lparr>os_log := os_log w @ [OpenWrite fp] @ map (Write fp) (filter (\<lambda>ch. ch \<noteq> []) chunks) @ [Close fp],
                 files := (files w)(path_parts fp \<mapsto> concat chunks)\<rparr>"
    by (simp add: wa_def wb_def wc_def)
  ultimately show ?thesis by simp
qed

lemma save_stream_failure:
  assumes "\<forall>i \<le> length (filter (\<lambda>ch. ch \<noteq> []) cs). os_script w (length (os_log w) + i) = None"
    and "item = Inl e \<or>
         (\<exists>ch. item = Inr ch \<and> ch \<noteq> [] \<and>
               os_script w (length (os_log w) + Suc (length (filter (\<lambda>ch. ch \<noteq> []) cs))) = Some e)"
  shows "\<exists>ctx w'. save_stream fp (map Inr cs @ item # rest) w = (Some ctx, w') \<and>
           (ctx = e \<or> exn_context ctx = Some e) \<and> files w' (path_parts fp) = Some (concat cs)"
proof -
  let ?m = "length (filter (\<lambda>ch. ch \<noteq> []) cs)"
  define wa where "wa = w\<lparr>os_log := os_log w @ [OpenWrite fp], files := (files w)(path_parts fp \<mapsto> [])\<rparr>"
  define wb where "wb = wa\<lparr>os_log := os_log wa @ map (Write fp) (filter (\<lambda>ch. ch \<noteq> []) cs),
                 files := (files wa)(path_parts fp \<mapsto> [] @ concat cs)\<rparr>"
  have "os_script w (length (os_log w) + 0) = None" using assms(1) by blast
  then have op: "open_wb fp w = (None, wa)"
    by (simp add: open_wb_def os_step_def wa_def)
  have "\<forall>i < ?m. os_script wa (length (os_log wa) + i) = None"
  proof (intro allI impI)
    fix i assume "i < ?m"
    then have "Suc i \<le> ?m" by simp
    with assms(1) have "os_script w (length (os_log w) + Suc i) = None" by blast
    then show "os_script wa (length (os_log wa) + i) = None" by (simp add: wa_def)
  qed
  moreover have "files wa (path_parts fp) = Some []" by (simp add: wa_def)
  ultimately have pre: "write_chunks fp (map Inr cs @ item # rest) wa = write_chunks fp (item # rest) wb"
    unfolding wb_def by (rule write_chunks_good_prefix)
  have wb_fields: "length (os_log wb) = length (os_log w) + Suc ?m" "os_script wb = os_script w"
    "files wb (path_parts fp) = Some (concat cs)"
    by (simp_all add: wa_def wb_def)
  have "\<exists>wc. write_chunks fp (item # rest) wb = (Some e, wc) \<and> os_script wc = os_script w \<and>
            files wc (path_parts fp) = Some (concat cs)"
  proof (cases item)
    case (Inl e')
    with assms(2) have "item = Inl e" by auto
    then show ?thesis using wb_fields by simp
  next
    case (Inr ch)
    with assms(2) have ch: "ch \<noteq> []" and bad: "os_script w (length (os_log w) + Suc ?m) = Some e"
      by auto
    have "os_script wb (length (os_log wb)) = Some e" using bad wb_fields by simp
    then have "file_write fp ch wb = (Some e, wb\<lparr>os_log := os_log wb @ [Write fp ch]\<rparr>)"
      unfolding file_write_def os_step_def by simp
    then show ?thesis using Inr ch wb_fields by simp
  qed
  then obtain wc where wc: "write_chunks fp (item # rest) wb = (Some e, wc)"
    "os_script wc = os_script w" "files wc (path_parts fp) = Some (concat cs)"
    by blast
  define wd where "wd = wc\<lparr>os_log := os_log wc @ [Close fp]\<rparr>"
  have cl: "file_close fp wc = (os_script wc (length (os_log wc)), wd)"
    by (simp add: file_close_def os_step_def wd_def)
  have fd: "files wd (path_parts fp) = Some (concat cs)" using wc(3) by (simp add: wd_def)
  show ?thesis
  proof (cases "os_script wc (length (os_log wc))")
    case None
    then have "save_stream fp (map Inr cs @ item # rest) w = (Some e, wd)"
      by (simp add: save_stream_def op pre wc(1) cl)
    then show ?thesis using fd by simp
  next
    case (Some e')
    then have "save_stream fp (map Inr cs @ item # rest) w = (Some (with_context e' (Some e)), wd)"
      by (simp add: save_stream_def op pre wc(1) cl)
    moreover have "exn_context (with_context e' (Some e)) = Some e"
      by (simp add: with_context_def)
    ultimately show ?thesis using fd by simp
  qed
qed

lemma download_world_facts:
  "fetched (download_world stream f) (length (http_log (download_world stream f)))
     = Some (status_payload ''completed'' [(''docx'', ''completed'')])"
  "http_script (download_world stream f) (Suc (length (http_log (download_world stream f))))
     = Inr (stream_response stream)"
  "os_script (download_world stream f) = f"
  "os_log (download_world stream f) = []"
  "dirs (download_world stream f) = {}"
  "files (download_world stream f) = Map.empty"
  by (simp_all add: download_world_def fresh_world_def script_of_def fetched_def json_response_def)

lemma example_format_completed:
  "format_completed (status_payload ''completed'' [(''docx'', ''completed'')]) ''docx''"
  by (simp add: format_completed_def job_formats_def job_status_def status_payload_def)

lemma example_paths:
  "path_parts ''output/dir'' = [''output'', ''dir'']"
  "path_parts ''out'' = [''out'']"
  "os_path_join ''output/dir'' [''c1.docx''] = ''output/dir/c1.docx''"
  "os_path_join ''out'' [''c1.docx''] = ''out/c1.docx''"
  "path_parts ''out/c1.docx'' = [''out'', ''c1.docx'']"
  by (simp_all add: path_parts_def os_path_join_def join2_def)

text \<open>
  C5. The claim: when the fetched status lacks \<open>conversion_status\<close> or the format's entry
  is not \<open>completed\<close>, \<open>download_output_to_local_path\<close> fails with the incomplete-job
  error carrying the last-seen status payload, and writes nothing. Evaluated on a job
  whose format \<open>docx\<close> is still \<open>processing\<close>: the error is raised and nothing is
  written (one request, no call to the file system), but the \<open>status_info\<close> it carries
  is the empty dict, not the payload that was fetched.
\<close>

theorem download_incomplete_status_info:
  "download_output_to_local_path example_conversion (Some ''docx'') (Some ''out'')
     (fresh_world (script_of [Inr (json_response (status_payload ''processing'' [(''docx'', ''processing'')]))]))
   = (Inl (Exn ConversionIncompleteError ''Conversion not complete'' [(''status_info'', PDict [])] None),
      (fresh_world (script_of [Inr (json_response (status_payload ''processing'' [(''docx'', ''processing'')]))]))
        \<lparr>http_log := [status_request example_conversion]\<rparr>)
   \<and> PDict [] \<noteq> status_payload ''processing'' [(''docx'', ''processing'')]"
proof -
  let ?st = "status_payload ''processing'' [(''docx'', ''processing'')]"
  let ?w = "fresh_world (script_of [Inr (json_response ?st)])"
  have f: "fetched ?w (length (http_log ?w)) = Some ?st"
    by (simp add: fetched_def fresh_world_def script_of_def json_response_def)
  have i: "incomplete_test ?st (Some ''docx'') = Inr True"
    by (simp add: incomplete_test_def status_payload_def format_key_def)
  have "http_log ?w = []" by (simp add: fresh_world_def)
  with download_incomplete[OF f i, of example_conversion "Some ''out''"] show ?thesis
    by (simp add: status_payload_def)
qed

text \<open>
  C6. When the format is \<open>completed\<close>, the directory path is non-empty and does not
  exist yet, and the environment lets the calls succeed, \<open>download_output_to_local_path\<close>
  creates the directory with its parents, writes exactly one file, named
  \<open>{conversion_id}.{format}\<close> and lying in that directory, with the chunks of the
  response as its contents, and returns \<open>{directory}/{conversion_id}.{format}\<close>. The
  identifier and the format are names of a file: they contain no \<open>/\<close>.
\<close>

theorem download_creates_directory_and_file:
  assumes "fetched w (length (http_log w)) = Some st"
    and "format_completed st fmt"
    and "http_script w (Suc (length (http_log w))) = Inr resp"
    and "iter_content resp = map Inr chunks"
    and "\<forall>i. length (os_log w) \<le> i \<longrightarrow> os_script w i = None"
    and "path \<noteq> []"
    and "path_parts path \<notin> dirs w"
    and "CHR ''/'' \<notin> set (conversion_id c)"
    and "CHR ''/'' \<notin> set fmt"
  shows "fst (download_output_to_local_path c (Some fmt) (Some path) w)
           = Inr (os_path_join path [conversion_id c @ ''.'' @ fmt]) \<and>
         os_path_join path [conversion_id c @ ''.'' @ fmt]
           = (if last path = CHR ''/'' then path @ conversion_id c @ ''.'' @ fmt
              else path @ ''/'' @ conversion_id c @ ''.'' @ fmt) \<and>
         path_parts (os_path_join path [conversion_id c @ ''.'' @ fmt])
           = path_parts path @ [conversion_id c @ ''.'' @ fmt] \<and>
         path_parts path \<in> dirs (snd (download_output_to_local_path c (Some fmt) (Some path) w)) \<and>
         dirs (snd (download_output_to_local_path c (Some fmt) (Some path) w))
           = dirs w \<union> ancestors_and_self (path_parts path) \<and>
         files (snd (download_output_to_local_path c (Some fmt) (Some path) w))
           = (files w)(path_parts path @ [conversion_id c @ ''.'' @ fmt] \<mapsto> concat chunks) \<and>
         os_log (snd (download_output_to_local_path c (Some fmt) (Some path) w))
           = os_log w @ [Makedirs path, OpenWrite (os_path_join path [conversion_id c @ ''.'' @ fmt])]
             @ map (Write (os_path_join path [conversion_id c @ ''.'' @ fmt])) (filter (\<lambda>ch. ch \<noteq> []) chunks)
             @ [Close (os_path_join path [conversion_id c @ ''.'' @ fmt])]"
proof -
  define name where "name = conversion_id c @ ''.'' @ fmt"
  define fp where "fp = os_path_join path [name]"
  define w3 where "w3 = before_write c fmt path w"
  define w4 where "w4 = w3\<lparr>os_log := os_log w3 @ [OpenWrite fp] @ map (Write fp) (filter (\<lambda>ch. ch \<noteq> []) chunks) @ [Close fp],
                 files := (files w3)(path_parts fp \<mapsto> concat chunks)\<rparr>"
  have nm: "output_name c (Some fmt) = name"
    by (simp add: output_name_def format_str_def name_def)
  have name_ok: "name \<noteq> []" "CHR ''/'' \<notin> set name"
    using assms(8,9) by (simp_all add: name_def)
  have mk: "path \<noteq> [] \<longrightarrow> os_script w (length (os_log w)) = None"
    using assms(5) by simp
  have ok3: "\<forall>i. length (os_log w3) \<le> i \<longrightarrow> os_script w3 i = None"
    using assms(5) by (simp add: w3_def before_write_def)
  have ss: "save_stream fp (iter_content resp) w3 = (None, w4)"
    unfolding assms(4) w4_def by (rule save_stream_success[OF ok3])
  have res: "download_output_to_local_path c (Some fmt) (Some path) w = (Inr fp, w4)"
    using download_reaches_write[OF assms(1,2,3) mk, of c] ss
    by (simp add: nm fp_def w3_def)
  have parts: "path_parts fp = path_parts path @ [name]"
    unfolding fp_def using assms(6) name_ok by (rule path_parts_join)
  have str: "fp = (if last path = CHR ''/'' then path @ name else path @ ''/'' @ name)"
    using assms(6) name_ok by (cases name) (auto simp: fp_def os_path_join_def join2_def)
  have d4: "dirs w4 = dirs w \<union> ancestors_and_self (path_parts path)"
    using assms(6) by (simp add: w4_def w3_def before_write_def)
  have self: "path_parts path \<in> dirs w4"
    using d4 self_in_ancestors[OF path_parts_nonempty[OF assms(6)]] by simp
  have f4: "files w4 = (files w)(path_parts path @ [name] \<mapsto> concat chunks)"
    using assms(6) by (simp add: w4_def w3_def before_write_def parts)
  have l4: "os_log w4 = os_log w @ [Makedirs path, OpenWrite fp] @ map (Write fp) (filter (\<lambda>ch. ch \<noteq> []) chunks) @ [Close fp]"
    using assms(6) by (simp add: w4_def w3_def before_write_def)
  show ?thesis
    unfolding name_def[symmetric] fp_def[symmetric] res
    using parts str d4 self f4 l4 by simp
qed

theorem download_creates_directory_and_file_witness:
  "format_completed (status_payload ''completed'' [(''docx'', ''completed'')]) ''docx'' \<and>
   path_parts ''output/dir'' \<notin> dirs (download_world [Inr [1, 2], Inr [], Inr [3]] (\<lambda>i. None)) \<and>
   fst (download_output_to_local_path example_conversion (Some ''docx'') (Some ''output/dir'')
          (download_world [Inr [1, 2], Inr [], Inr [3]] (\<lambda>i. None))) = Inr ''output/dir/c1.docx'' \<and>
   [''output'', ''dir''] \<in> dirs (snd (download_output_to_local_path example_conversion (Some ''docx'')
          (Some ''output/dir'') (download_world [Inr [1, 2], Inr [], Inr [3]] (\<lambda>i. None)))) \<and>
   files (snd (download_output_to_local_path example_conversion (Some ''docx'') (Some ''output/dir'')
          (download_world [Inr [1, 2], Inr [], Inr [3]] (\<lambda>i. None))))
     = [[''output'', ''dir'', ''c1.docx''] \<mapsto> [1, 2, 3]]"
proof -
  let ?w = "download_world [Inr [1, 2], Inr [], Inr [3]] (\<lambda>i. None)"
  have h4: "iter_content (stream_response [Inr [1, 2], Inr [], Inr [3]]) = map Inr [[1, 2], [], [3]]"
    by (simp add: stream_response_def)
  have h5: "\<forall>i. length (os_log ?w) \<le> i \<longrightarrow> os_script ?w i = None"
    by (simp add: download_world_facts)
  have h6: "''output/dir'' \<noteq> []" by simp
  have h7: "path_parts ''output/dir'' \<notin> dirs ?w" by (simp add: download_world_facts)
  have h8: "CHR ''/'' \<notin> set (conversion_id example_conversion)" by (simp add: example_conversion_def)
  have h9: "CHR ''/'' \<notin> set ''docx''" by simp
  have id: "conversion_id example_conversion = ''c1''" by (simp add: example_conversion_def)
  from download_creates_directory_and_file
         [OF download_world_facts(1) example_format_completed download_world_facts(2) h4 h5 h6 h7 h8 h9]
  show ?thesis
    using h7 by (simp add: example_format_completed example_paths id download_world_facts self_in_ancestors)
qed

text \<open>
  C7. However many chunks have been written, when the next step of the write loop raises
  (the iterator of the response, or \<open>f.write\<close>), the call ends with \<open>FilesystemError\<close>,
  never with a path. The exception that left the \<open>with\<close> block is its \<open>__context__\<close>:
  the one the step raised, or the one raised by closing the file, whose own context is
  the one the step raised. The bytes written before stay in the file.
\<close>

theorem download_write_failure:
  assumes "fetched w (length (http_log w)) = Some st"
    and "format_completed st fmt"
    and "http_script w (Suc (length (http_log w))) = Inr resp"
    and "path \<noteq> [] \<longrightarrow> os_script w (length (os_log w)) = None"
    and "iter_content resp = map Inr cs @ item # rest"
    and "\<forall>i \<le> length (filter (\<lambda>ch. ch \<noteq> []) cs).
           os_script w (length (os_log w) + (if path = [] then 0 else 1) + i) = None"
    and "item = Inl e \<or>
         (\<exists>ch. item = Inr ch \<and> ch \<noteq> [] \<and>
               os_script w (length (os_log w) + (if path = [] then 0 else 1)
                            + Suc (length (filter (\<lambda>ch. ch \<noteq> []) cs))) = Some e)"
  shows "\<exists>ctx w'. download_output_to_local_path c (Some fmt) (Some path) w
                   = (Inl (Exn FilesystemError ''Failed to save file to system'' [] (Some ctx)), w') \<and>
                 (ctx = e \<or> exn_context ctx = Some e) \<and>
                 files w' (path_parts (os_path_join path [conversion_id c @ ''.'' @ fmt])) = Some (concat cs)"
proof -
  define fp where "fp = os_path_join path [output_name c (Some fmt)]"
  define w3 where "w3 = before_write c fmt path w"
  have nm: "output_name c (Some fmt) = conversion_id c @ ''.'' @ fmt"
    by (simp add: output_name_def format_str_def)
  have g: "\<forall>i \<le> length (filter (\<lambda>ch. ch \<noteq> []) cs). os_script w3 (length (os_log w3) + i) = None"
    using assms(6) by (simp add: w3_def before_write_fields)
  have b: "item = Inl e \<or>
         (\<exists>ch. item = Inr ch \<and> ch \<noteq> [] \<and>
               os_script w3 (length (os_log w3) + Suc (length (filter (\<lambda>ch. ch \<noteq> []) cs))) = Some e)"
    using assms(7) by (simp add: w3_def before_write_fields)
  from save_stream_failure[OF g b, of fp rest]
  obtain ctx w' where s: "save_stream fp (map Inr cs @ item # rest) w3 = (Some ctx, w')"
    and c: "ctx = e \<or> exn_context ctx = Some e" and f: "files w' (path_parts fp) = Some (concat cs)"
    by blast
  have "download_output_to_local_path c (Some fmt) (Some path) w
        = (Inl (Exn FilesystemError ''Failed to save file to system'' [] (Some ctx)), w')"
    using download_reaches_write[OF assms(1,2,3,4), of c] s
    by (simp add: assms(5) fp_def w3_def)
  with c f show ?thesis unfolding fp_def nm by blast
qed

theorem download_write_failure_witness:
  "format_completed (status_payload ''completed'' [(''docx'', ''completed'')]) ''docx'' \<and>
   (\<exists>ctx w'. download_output_to_local_path example_conversion (Some ''docx'') (Some ''out'')
                (download_world [Inr [1, 2], Inr [3]] (\<lambda>i. if i = 3 then Some disk_full else None))
              = (Inl (Exn FilesystemError ''Failed to save file to system'' [] (Some ctx)), w') \<and>
              (ctx = disk_full \<or> exn_context ctx = Some disk_full) \<and>
              files w' [''out'', ''c1.docx''] = Some [1, 2])"
proof -
  let ?f = "\<lambda>i::nat. if i = 3 then Some disk_full else None"
  let ?w = "download_world [Inr [1, 2], Inr [3]] ?f"
  have h4: "''out'' \<noteq> [] \<longrightarrow> os_script ?w (length (os_log ?w)) = None"
    by (simp add: download_world_facts)
  have h5: "iter_content (stream_response [Inr [1, 2], Inr [3]]) = map Inr [[1, 2]] @ Inr [3] # []"
    by (simp add: stream_response_def)
  have h6: "\<forall>i \<le> length (filter (\<lambda>ch. ch \<noteq> []) [[1, 2 :: 8 word]]).
              os_script ?w (length (os_log ?w) + (if ''out'' = [] then 0 else 1) + i) = None"
    by (simp add: download_world_facts)
  have h7: "Inr [3] = Inl disk_full \<or>
         (\<exists>ch. Inr [3] = Inr ch \<and> ch \<noteq> [] \<and>
               os_script ?w (length (os_log ?w) + (if ''out'' = [] then 0 else 1)
                            + Suc (length (filter (\<lambda>ch. ch \<noteq> []) [[1, 2 :: 8 word]]))) = Some disk_full)"
    by (simp add: download_world_facts)
  have id: "conversion_id example_conversion = ''c1''" by (simp add: example_conversion_def)
  from download_write_failure
         [OF download_world_facts(1) example_format_completed download_world_facts(2) h4 h5 h6 h7,
          of example_conversion]
  show ?thesis
    by (simp add: example_format_completed example_paths id)
qed

section \<open>Properties of image_new\<close>

lemma key_eq_is_str: "key_eq k' k \<Longrightarrow> is_str k' = is_str k"
  by (cases k'; cases k) auto

lemma dict_setitem_keeps_non_str:
  "(\<exists>k\<in>fst ` set d. \<not> is_str k) \<or> \<not> is_str k0 \<Longrightarrow>
   \<exists>k\<in>fst ` set (dict_setitem d k0 v). \<not> is_str k"
proof (induction d)
  case Nil
  then show ?case by simp
next
  case (Cons kv d)
  obtain k' v' where kv: "kv = (k', v')" by (cases kv)
  show ?case
  proof (cases "key_eq k' k0")
    case True
    with Cons.prems kv key_eq_is_str[OF True] show ?thesis by auto
  next
    case False
    with Cons kv show ?thesis by auto
  qed
qed

lemma dict_display_keeps_non_str:
  "dict_display d items = Inr d' \<Longrightarrow>
   (\<exists>x\<in>fst ` set d. \<not> is_str x) \<or> (\<exists>x\<in>fst ` set items. \<not> is_str x) \<Longrightarrow>
   \<exists>x\<in>fst ` set d'. \<not> is_str x"
proof (induction d items rule: dict_display.induct)
  case (1 d)
  then show ?case by simp
next
  case (2 d k v items)
  from "2.prems"(1) have h: "unhashable_type k = None"
    by (cases "unhashable_type k") simp_all
  with "2.prems"(1) have r: "dict_display (dict_setitem d k v) items = Inr d'"
    by simp
  have "(\<exists>x\<in>fst ` set (dict_setitem d k v). \<not> is_str x) \<or> (\<exists>x\<in>fst ` set items. \<not> is_str x)"
  proof (cases "\<exists>x\<in>fst ` set items. \<not> is_str x")
    case True
    then show ?thesis by simp
  next
    case False
    with "2.prems"(2) have "(\<exists>x\<in>fst ` set d. \<not> is_str x) \<or> \<not> is_str k" by simp blast
    then have "\<exists>x\<in>fst ` set (dict_setitem d k v). \<not> is_str x"
      by (rule dict_setitem_keeps_non_str)
    then show ?thesis by simp
  qed
  with h r show ?case by (rule "2.IH")
qed

lemma dict_display_error: "dict_display d items = Inl e \<Longrightarrow> exn_cls e = TypeError"
  by (induction d items rule: dict_display.induct) (auto simp: new_exn_def split: option.splits)

lemma threshold_ok_not_str: "threshold_out_of_range v = Inr False \<Longrightarrow> \<not> is_str v"
  by (cases v) (auto simp: threshold_out_of_range_def split: if_splits)

lemma Image_call_non_str:
  "\<exists>k\<in>fst ` set kwargs. \<not> is_str k \<Longrightarrow>
   Image_call a kwargs = Inl (new_exn TypeError ''keywords must be strings'')"
  by (auto simp: Image_call_def list_all_iff)

lemma image_new_passes:
  assumes "passes_checks p"
  shows "image_new self p =
         (case dict_display [] (image_options_items p) of
            Inl e \<Rightarrow> Inl e
          | Inr image_options \<Rightarrow>
              Image_call (Some (mathpix_client.auth self))
                (if py_truthy (file_path p)
                 then dict_setitem image_options (PStr ''file_path'') (file_path p)
                 else dict_setitem image_options (PStr ''file_url'') (file_url p)))"
  using assms by (auto simp: image_new_def passes_checks_def)

lemma image_new_fails_checks:
  assumes "\<not> passes_checks p"
  shows "isl (image_new self p)"
proof (cases "(file_path p = PNone) \<noteq> (file_url p = PNone)")
  case False
  then show ?thesis by (auto simp: image_new_def)
next
  case files_ok: True
  show ?thesis
  proof (cases "py_len (formats p)")
    case (Inl e)
    with files_ok show ?thesis by (auto simp: image_new_def)
  next
    case len: (Inr n)
    show ?thesis
    proof (cases "n = 1")
      case False
      with files_ok len show ?thesis by (auto simp: image_new_def)
    next
      case one: True
      show ?thesis
      proof (cases "threshold_out_of_range (confidence_threshold p) = Inr False")
        case False
        with files_ok len one show ?thesis
          by (cases "threshold_out_of_range (confidence_threshold p)") (auto simp: image_new_def)
      next
        case t1: True
        show ?thesis
        proof (cases "threshold_out_of_range (confidence_rate_threshold p) = Inr False")
          case False
          with files_ok len one t1 show ?thesis
            by (cases "threshold_out_of_range (confidence_rate_threshold p)") (auto simp: image_new_def)
        next
          case t2: True
          have "threshold_out_of_range (auto_rotate_confidence_threshold p) \<noteq> Inr False"
            using assms files_ok len one t1 t2 by (auto simp: passes_checks_def)
          with files_ok len one t1 t2 show ?thesis
            by (cases "threshold_out_of_range (auto_rotate_confidence_threshold p)") (auto simp: image_new_def)
        qed
      qed
    qed
  qed
qed

lemma image_new_type_error:
  assumes "passes_checks p"
  shows "\<exists>e. image_new self p = Inl e \<and> exn_cls e = TypeError"
proof (cases "dict_display [] (image_options_items p)")
  case (Inl e)
  with dict_display_error[OF Inl] image_new_passes[OF assms, of self] show ?thesis by simp
next
  case (Inr d)
  have "\<not> is_str (confidence_threshold p)"
    using assms by (simp add: passes_checks_def threshold_ok_not_str)
  then have "\<exists>k\<in>fst ` set (image_options_items p). \<not> is_str k"
    by (simp add: image_options_items_def)
  with dict_display_keeps_non_str[OF Inr] have ns: "\<exists>k\<in>fst ` set d. \<not> is_str k" by blast
  have "\<exists>k\<in>fst ` set (if py_truthy (file_path p)
                 then dict_setitem d (PStr ''file_path'') (file_path p)
                 else dict_setitem d (PStr ''file_url'') (file_url p)). \<not> is_str k"
    using ns dict_setitem_keeps_non_str by (cases "py_truthy (file_path p)") auto
  from Image_call_non_str[OF this] image_new_passes[OF assms, of self] Inr
  show ?thesis by (simp add: new_exn_def)
qed

lemma image_new_formats_list:
  assumes "passes_checks p" and "formats p = PList xs" and "unhashable_type (callback p) = None"
  shows "image_new self p = Inl (new_exn TypeError ''unhashable type: list'')"
  using image_new_passes[OF assms(1), of self] assms(2,3)
  by (simp add: image_options_items_def)

lemma image_new_formats_none:
  assumes "(file_path p = PNone) \<noteq> (file_url p = PNone)" and "formats p = PNone"
  shows "image_new self p = Inl (new_exn TypeError ''object of type NoneType has no len()'')"
  using assms by (auto simp: image_new_def)

text \<open>
  C9. \<open>image_new\<close> never returns an \<open>Image\<close>: every call ends with an exception. With
  \<open>formats=None\<close> (the default) and exactly one of \<open>file_path\<close>, \<open>file_url\<close> given,
  \<open>len(formats)\<close> raises \<open>TypeError\<close>. Arguments that get through all explicit checks
  end with \<open>TypeError\<close>; when \<open>formats\<close> is a list (and \<open>callback\<close>, the key before
  it, is hashable) it is the \<open>unhashable type\<close> error of using the list as a key of the
  options dictionary.
\<close>

theorem image_new_always_raises:
  "isl (image_new self p) \<and>
   ((file_path p = PNone) \<noteq> (file_url p = PNone) \<longrightarrow> formats p = PNone \<longrightarrow>
      image_new self p = Inl (new_exn TypeError ''object of type NoneType has no len()'')) \<and>
   (passes_checks p \<longrightarrow> (\<exists>e. image_new self p = Inl e \<and> exn_cls e = TypeError)) \<and>
   (passes_checks p \<longrightarrow> (\<exists>xs. formats p = PList xs) \<longrightarrow> unhashable_type (callback p) = None \<longrightarrow>
      image_new self p = Inl (new_exn TypeError ''unhashable type: list''))"
proof -
  have "isl (image_new self p)"
  proof (cases "passes_checks p")
    case True
    from image_new_type_error[OF True, of self] show ?thesis by auto
  next
    case False
    then show ?thesis by (rule image_new_fails_checks)
  qed
  then show ?thesis
    using image_new_formats_none image_new_type_error image_new_formats_list by blast
qed

theorem image_new_always_raises_witness:
  "(file_path (no_params\<lparr>file_url := PStr ''http://x/y.jpg''\<rparr>) = PNone)
     \<noteq> (file_url (no_params\<lparr>file_url := PStr ''http://x/y.jpg''\<rparr>) = PNone) \<and>
   formats (no_params\<lparr>file_url := PStr ''http://x/y.jpg''\<rparr>) = PNone \<and>
   image_new example_client (no_params\<lparr>file_url := PStr ''http://x/y.jpg''\<rparr>)
     = Inl (new_exn TypeError ''object of type NoneType has no len()'') \<and>
   passes_checks (no_params\<lparr>file_url := PStr ''http://x/y.jpg'', formats := PList [PStr ''text'']\<rparr>) \<and>
   unhashable_type (callback (no_params\<lparr>file_url := PStr ''http://x/y.jpg'', formats := PList [PStr ''text'']\<rparr>)) = None \<and>
   image_new example_client (no_params\<lparr>file_url := PStr ''http://x/y.jpg'', formats := PList [PStr ''text'']\<rparr>)
     = Inl (new_exn TypeError ''unhashable type: list'')"
  using image_new_always_raises [of example_client "no_params\<lparr>file_url := PStr ''http://x/y.jpg''\<rparr>"]
    image_new_always_raises [of example_client
      "no_params\<lparr>file_url := PStr ''http://x/y.jpg'', formats := PList [PStr ''text'']\<rparr>"]
  by (simp add: no_params_def passes_checks_def threshold_out_of_range_def)

section \<open>Properties of Image.results\<close>

lemma snd_send_image:
  "snd (send_image ep h b w) = w\<lparr>http_log := http_log w @ [Post ep h b]\<rparr>"
  by (simp add: send_image_def post_def http_request_def split: sum.splits option.splits)

lemma json_dumps_options:
  "json_dumps (PDict [(PStr ''include_line_data'', v)]) = Inr t \<Longrightarrow>
   t = JsonText (PDict [(PStr ''include_line_data'', v)])"
  by (auto simp: json_dumps_def split: if_splits)

lemma results_log:
  "http_log (snd (results self b w)) = http_log w \<or>
   http_log (snd (results self b w)) =
     http_log w @ [Post (os_path_join (api_url (image.auth self)) [''v3/text'']) (headers (image.auth self))
        (JsonBody (PDict [(PStr ''include_line_data'', include_line_data (attrs self)),
                          (PStr ''src'', file_url (attrs self))]))] \<or>
   (\<exists>p. file_path (attrs self) = PStr p \<and>
     http_log (snd (results self b w)) =
       http_log w @ [Post (os_path_join (api_url (image.auth self)) [''v3/text'']) (headers (image.auth self))
          (MultipartBody [(''options_json'',
              JsonText (PDict [(PStr ''include_line_data'', include_line_data (attrs self))]))] p)])"
proof (cases "json_dumps (PDict [(PStr ''include_line_data'', include_line_data (attrs self))])")
  case (Inl e)
  then show ?thesis by (simp add: results_def)
next
  case (Inr t)
  note t = json_dumps_options[OF Inr]
  show ?thesis
  proof (cases "py_truthy (file_path (attrs self))")
    case False
    with Inr show ?thesis by (simp add: results_def snd_send_image)
  next
    case True
    show ?thesis
    proof (cases "file_path (attrs self)")
      case (PStr p)
      show ?thesis
      proof (cases "path_parts p \<in> dom (files w)")
        case False
        with Inr True PStr show ?thesis by (simp add: results_def)
      next
        case is_file: True
        show ?thesis
        proof (cases "os_script w (length (os_log w))")
          case (Some e)
          with Inr True PStr is_file show ?thesis
            by (simp add: results_def os_step_def)
        next
          case None
          let ?w1 = "w\<lparr>os_log := os_log w @ [OpenRead p]\<rparr>"
          let ?r = "send_image (os_path_join (api_url (image.auth self)) [''v3/text''])
                      (headers (image.auth self)) (MultipartBody [(''options_json'', t)] p) ?w1"
          have "http_log (snd ?r) = http_log w @ [Post (os_path_join (api_url (image.auth self)) [''v3/text''])
                   (headers (image.auth self)) (MultipartBody [(''options_json'', t)] p)]"
            by (simp add: snd_send_image)
          moreover have "http_log (snd (results self b w)) = http_log (snd ?r)"
            using Inr True PStr is_file None
            by (cases ?r) (simp add: results_def os_step_def file_close_def split: option.splits)
          ultimately show ?thesis using PStr t by simp
        qed
      qed
    qed (use Inr True in \<open>simp_all add: results_def\<close>)
  qed
qed

text \<open>
  C10. \<open>Image.results\<close> ignores its \<open>include_line_data\<close> argument: the outcome is the
  same for every value of it. So \<open>lines_json\<close>, which passes \<open>True\<close>, changes the world
  exactly as \<open>results\<close> does with any argument, and the request it sends, if it sends
  one, carries the options \<open>{"include_line_data": self.include_line_data}\<close> (with \<open>src\<close>
  added for a URL) and no other stored option: line data is requested only if the
  \<open>Image\<close> was constructed with it.
\<close>

theorem results_ignores_include_line_data:
  "results self b w = results self (PBool False) w \<and>
   snd (lines_json self w) = snd (results self b w) \<and>
   (http_log (snd (lines_json self w)) = http_log w \<or>
    http_log (snd (lines_json self w)) =
      http_log w @ [Post (os_path_join (api_url (image.auth self)) [''v3/text'']) (headers (image.auth self))
         (JsonBody (PDict [(PStr ''include_line_data'', include_line_data (attrs self)),
                           (PStr ''src'', file_url (attrs self))]))] \<or>
    (\<exists>p. file_path (attrs self) = PStr p \<and>
      http_log (snd (lines_json self w)) =
        http_log w @ [Post (os_path_join (api_url (image.auth self)) [''v3/text'']) (headers (image.auth self))
           (MultipartBody [(''options_json'',
               JsonText (PDict [(PStr ''include_line_data'', include_line_data (attrs self))]))] p)]))"
proof -
  have a: "results self b w = results self (PBool False) w" for b
    by (simp add: results_def)
  have l: "snd (lines_json self w) = snd (results self (PBool True) w)"
    by (cases "results self (PBool True) w") (auto simp: lines_json_def split: sum.splits)
  have "snd (lines_json self w) = snd (results self b w)"
    using l a[of b] a[of "PBool True"] by simp
  then show ?thesis using a[of b] results_log[of self b w] by simp
qed

text \<open>
  An \<open>Image\<close> constructed without \<open>include_line_data\<close>: \<open>lines_json\<close> sends
  \<open>include_line_data: None\<close>, and the answer has no \<open>line_data\<close> to return.
\<close>

lemma lines_json_without_line_data:
  "lines_json (url_image ''http://x/y.jpg'' PNone)
     (fresh_world (script_of [Inr (json_response (PDict [(PStr ''text'', PStr ''abc'')]))]))
   = (Inl (Exn KeyError [] [(''args'', PTuple [PStr ''line_data''])] None),
      (fresh_world (script_of [Inr (json_response (PDict [(PStr ''text'', PStr ''abc'')]))]))
        \<lparr>http_log := [Post ''https://api.mathpix.com/v3/text'' [(''app_id'', ''id''), (''app_key'', ''key'')]
            (JsonBody (PDict [(PStr ''include_line_data'', PNone), (PStr ''src'', PStr ''http://x/y.jpg'')]))]\<rparr>)"
  by (simp add: lines_json_def results_def url_image_def no_params_def json_dumps_def send_image_def
        post_def http_request_def fresh_world_def script_of_def json_response_def raise_for_status_def
        example_conversion_def os_path_join_def join2_def)

section \<open>Which exceptions reach the caller\<close>

lemma conversion_status_result:
  "conversion_status c w =
     ((case http_script w (length (http_log w)) of Inl e \<Rightarrow> Inl e | Inr r \<Rightarrow> json_result r),
      w\<lparr>http_log := http_log w @ [status_request c]\<rparr>)"
  by (simp add: conversion_status_def get_def http_request_def status_request_def split: sum.splits)

lemma wait_loop_status_raises:
  assumes "conversion_status c w = (Inl e, w1)" and "attempt < timeout"
  shows "wait_loop c timeout attempt False w = (Inl e, w1)"
  using assms by (subst wait_loop.simps) simp

lemma download_makedirs_raises:
  assumes "fetched w (length (http_log w)) = Some st"
    and "format_completed st fmt"
    and "http_script w (Suc (length (http_log w))) = Inr resp"
    and "path \<noteq> []"
    and "os_script w (length (os_log w)) = Some e"
  shows "fst (download_output_to_local_path c (Some fmt) (Some path) w) = Inl e"
  using assms format_completed_test[OF assms(2)]
  by (simp add: download_output_to_local_path_def conversion_status_fetched get_def http_request_def
        os_makedirs_def os_step_def)

text \<open>
  C8. The claim: every public operation gives the caller a normal result or one of the
  four typed errors, never a raw transport exception. Evaluated where the status
  endpoint answers with a body that is not JSON: \<open>conversion_status\<close> calls
  \<open>response.json()\<close> outside any \<open>try\<close>, so the \<open>JSONDecodeError\<close> of the transport
  library reaches the caller as it is, and reaches the caller of \<open>wait_until_complete\<close>
  through the first poll; it is a \<open>RequestException\<close> and none of the typed errors. In
  \<open>download_output_to_local_path\<close> the call of \<open>os.makedirs\<close> stands before the \<open>try\<close>
  that raises \<open>FilesystemError\<close>, so its \<open>PermissionError\<close> reaches the caller as it is
  too.
\<close>

theorem conversion_status_raw_json_error:
  "conversion_status example_conversion (fresh_world (script_of [Inr not_json_response]))
     = (Inl json_decode_error,
        (fresh_world (script_of [Inr not_json_response]))
          \<lparr>http_log := [status_request example_conversion]\<rparr>) \<and>
   wait_until_complete example_conversion (PInt 5) (fresh_world (script_of [Inr not_json_response]))
     = (Inl json_decode_error,
        (fresh_world (script_of [Inr not_json_response]))
          \<lparr>http_log := [status_request example_conversion]\<rparr>) \<and>
   is_request_exception json_decode_error \<and> \<not> typed_error json_decode_error \<and>
   fst (download_output_to_local_path example_conversion (Some ''docx'') (Some ''out'')
          (download_world [Inr [1]] (\<lambda>i. if i = 0 then Some permission_error else None)))
     = Inl permission_error \<and>
   \<not> typed_error permission_error"
proof -
  let ?w = "fresh_world (script_of [Inr not_json_response])"
  let ?w1 = "?w\<lparr>http_log := [status_request example_conversion]\<rparr>"
  let ?d = "download_world [Inr [1]] (\<lambda>i. if i = 0 then Some permission_error else None)"
  have s: "conversion_status example_conversion ?w = (Inl json_decode_error, ?w1)"
    by (simp add: conversion_status_result fresh_world_def script_of_def not_json_response_def)
  have "wait_loop example_conversion 5 1 False ?w = (Inl json_decode_error, ?w1)"
    using s by (rule wait_loop_status_raises) simp
  then have p: "wait_until_complete example_conversion (PInt 5) ?w = (Inl json_decode_error, ?w1)"
    by (simp add: wait_until_complete_def)
  have c: "is_request_exception json_decode_error" "\<not> typed_error json_decode_error"
    "\<not> typed_error permission_error"
    by (simp_all add: json_decode_error_def permission_error_def typed_error_def new_exn_def)
  have "os_script ?d (length (os_log ?d)) = Some permission_error"
    by (simp add: download_world_facts)
  with download_makedirs_raises[OF download_world_facts(1) example_format_completed
         download_world_facts(2), of "''out''" _ _ permission_error example_conversion]
  have d: "fst (download_output_to_local_path example_conversion (Some ''docx'') (Some ''out'') ?d)
           = Inl permission_error"
    by simp
  show ?thesis using s p c d by simp
qed

theorem conversion_status_raw_json_error_witness:
  "py_isinstance_int (PInt 5) \<and> 0 < py_int_value (PInt 5) \<and>
   fst (wait_until_complete example_conversion (PInt 5) (fresh_world (script_of [Inr not_json_response])))
     = Inl json_decode_error \<and>
   \<not> typed_error json_decode_error"
  using conversion_status_raw_json_error by simp

end
